theory Spec2Isabelle
  imports Complex_Main "HOL-Library.Sublist"
begin

section \<open>Shader programs and the identifier of a program\<close>

text \<open>
  A program handle as \<^verbatim>\<open>gl.useProgram\<close> receives it. \<^verbatim>\<open>gl.getAttachedShaders(program)\<close>
  yields \<^verbatim>\<open>null\<close> (here \<open>None\<close>) or the array of attached shaders; each shader is
  represented by what \<^verbatim>\<open>gl.getShaderSource\<close> returns for it (\<^verbatim>\<open>null\<close> or a string).
  The handle itself may be \<^verbatim>\<open>null\<close>: \<open>None :: program option\<close>.
  Strings are lists of code units below 256.
\<close>

record program =
  prog_id :: nat
  attachedShaders :: "string option list option"

datatype js_error = TypeError | RangeError

text \<open>
  The expression \<^verbatim>\<open>gl.getShaderSource(gl.getAttachedShaders(program)[1])\<close>:
  a \<^verbatim>\<open>null\<close> handle, a \<^verbatim>\<open>null\<close> array and a missing second shader all throw a TypeError.
\<close>

definition shader_source :: "program option \<Rightarrow> js_error + string option" where
  "shader_source ph =
     (case ph of
        None \<Rightarrow> Inl TypeError
      | Some p \<Rightarrow>
          (case attachedShaders p of
             None \<Rightarrow> Inl TypeError
           | Some ss \<Rightarrow> if 1 < length ss then Inr (ss ! 1) else Inl TypeError))"

text \<open>\<^verbatim>\<open>s.includes(t)\<close>: \<open>t\<close> occurs in \<open>s\<close> as a contiguous, case-sensitive substring.\<close>

fun str_includes :: "string \<Rightarrow> string \<Rightarrow> bool" where
  "str_includes [] t = (t = [])"
| "str_includes (c # cs) t = (prefix t (c # cs) \<or> str_includes cs t)"

definition TARGET :: string where
  "TARGET = ''pixi-shader-15''"

text \<open>The character class \<^verbatim>\<open>\s\<close> (also what \<^verbatim>\<open>trim\<close> strips), on code units below 256.\<close>

definition is_space :: "char \<Rightarrow> bool" where
  "is_space c \<longleftrightarrow> c \<in> {CHR 0x09, CHR 0x0A, CHR 0x0B, CHR 0x0C, CHR 0x0D, CHR 0x20, CHR 0xA0}"

definition trim :: "string \<Rightarrow> string" where
  "trim s = rev (dropWhile is_space (rev (dropWhile is_space s)))"

text \<open>
  The regular expression \<^verbatim>\<open>/#define SHADER_NAME\s+([^\n]+)/\<close>. \<open>name_group\<close> is the
  rest of the pattern, \<^verbatim>\<open>\s+([^\n]+)\<close>, matched at the start of a string: the greedy
  \<^verbatim>\<open>\s+\<close> takes the whole run of white space; when nothing follows the run, it gives
  characters back from the right until one that is not a line feed can start the group.
  \<open>shader_name_match\<close> tries the start positions from the left and returns the group
  of the first match.
\<close>

definition name_group :: "string \<Rightarrow> string option" where
  "name_group s =
     (let ws = takeWhile is_space s; rest = dropWhile is_space s in
      if ws = [] then None
      else if rest \<noteq> [] then Some (takeWhile (\<lambda>c. c \<noteq> CHR 0x0A) rest)
      else (case filter (\<lambda>j. ws ! j \<noteq> CHR 0x0A) (rev [1 ..< length ws]) of
              [] \<Rightarrow> None
            | j # _ \<Rightarrow> Some (takeWhile (\<lambda>c. c \<noteq> CHR 0x0A) (drop j ws))))"

definition SHADER_NAME_DEFINE :: string where
  "SHADER_NAME_DEFINE = ''#define SHADER_NAME''"

fun shader_name_match :: "string \<Rightarrow> string option" where
  "shader_name_match [] = None"
| "shader_name_match (c # cs) =
     (if prefix SHADER_NAME_DEFINE (c # cs)
      then (case name_group (drop (length SHADER_NAME_DEFINE) (c # cs)) of
              Some g \<Rightarrow> Some g
            | None \<Rightarrow> shader_name_match cs)
      else shader_name_match cs)"

text \<open>
  The name the one-shot capture gives a program: \<^verbatim>\<open>"UnknownProgram"\<close> unless the source
  can be read and the pattern matches. A \<^verbatim>\<open>null\<close> source makes \<^verbatim>\<open>source.match\<close> throw,
  which the \<^verbatim>\<open>catch\<close> swallows like every other failure.
\<close>

definition programName :: "program option \<Rightarrow> string" where
  "programName ph =
     (case shader_source ph of
        Inl e \<Rightarrow> ''UnknownProgram''
      | Inr None \<Rightarrow> ''UnknownProgram''
      | Inr (Some source) \<Rightarrow>
          (case shader_name_match source of
             None \<Rightarrow> ''UnknownProgram''
           | Some g \<Rightarrow> trim g))"

definition debug_match :: "program option \<Rightarrow> bool" where
  "debug_match ph = str_includes (programName ph) TARGET"

text \<open>
  The entry test of the real-time tap:
  \<^verbatim>\<open>source && source.includes("pixi-shader-15")\<close> inside the \<^verbatim>\<open>try\<close>.
\<close>

definition realtime_match :: "program option \<Rightarrow> bool" where
  "realtime_match ph =
     (case shader_source ph of
        Inl e \<Rightarrow> False
      | Inr None \<Rightarrow> False
      | Inr (Some source) \<Rightarrow> source \<noteq> [] \<and> str_includes source TARGET)"

section \<open>The graphics call stream\<close>

text \<open>
  Render targets are references: textures of the host, or surfaces this module
  created. A draw call is recorded with its arguments and with the value that
  \<^verbatim>\<open>renderer.renderTexture.current\<close> holds when the original call has returned
  (\<open>None\<close> is \<^verbatim>\<open>null\<close>); that value is observed by the tap, not passed by the caller.
\<close>

datatype tex = HostTex nat | OwnTex nat

datatype glcall =
    UseProgram "program option"
  | DrawElements "int list" "tex option"

text \<open>
  What an entry point of the context holds: an implementation of the host, or the
  replacement the module installed.
\<close>

datatype glfn = Host nat | Tap

text \<open>
  The host: the value an implementation returns, given the calls that reached the
  host's implementations so far; and the calls that \<^verbatim>\<open>renderer.render\<close> of one sprite
  issues through the context's entry points.
\<close>

record 'r host_env =
  host_ret :: "nat \<Rightarrow> glcall \<Rightarrow> (nat \<times> glcall) list \<Rightarrow> 'r"
  blit_calls :: "glcall list"

text \<open>
  A sequence of calls, each made in the state the previous one left; an exception
  ends the sequence.
\<close>

fun run_calls ::
  "('c \<Rightarrow> 'w \<Rightarrow> js_error + ('r \<times> 'w)) \<Rightarrow> 'c list \<Rightarrow> 'w \<Rightarrow> js_error + ('r list \<times> 'w)" where
  "run_calls step [] w = Inr ([], w)"
| "run_calls step (c # cs) w =
     (case step c w of
        Inl e \<Rightarrow> Inl e
      | Inr (r, w1) \<Rightarrow>
          (case run_calls step cs w1 of
             Inl e \<Rightarrow> Inl e
           | Inr (rs, w2) \<Rightarrow> Inr (r # rs, w2)))"

section \<open>The one-shot debug capture\<close>

datatype notice =
    Warn_AlreadyArmed
  | Error_NoContext
  | Info_ReadyForCapture
  | Warn_NoValidTexture

datatype dbg_line =
    Line_Armed
  | Line_Exiting nat
  | Line_Entering string
  | Line_Complete

text \<open>
  \<open>debugCaptureArmed\<close> is \<^verbatim>\<open>window.illuminationBufferDebugCaptureArmed\<close>;
  \<open>dbg_useProgram\<close> and \<open>dbg_drawElements\<close> are the two entry points of the context;
  the next five fields are the variables of the closure; \<open>dbg_invalid\<close> holds the
  textures whose \<^verbatim>\<open>valid\<close> flag is false and \<open>popup_blocked\<close> says that
  \<^verbatim>\<open>window.open()\<close> returns \<^verbatim>\<open>null\<close>. The remaining fields record effects in order:
  calls that reached an implementation of the host, user notifications, console
  lines, pixel read-backs (\<^verbatim>\<open>renderer.extract.canvas\<close>) and viewer windows written.
  The read-back is taken to issue no call through the two entry points and not to
  throw.
\<close>

record dbg_world =
  debugCaptureArmed :: bool
  dbg_useProgram :: glfn
  dbg_drawElements :: glfn
  originalUseProgram :: glfn
  originalDrawElements :: glfn
  dbg_inTargetShaderPass :: bool
  dbg_lastCapturedTexture :: "tex option"
  drawCountInPass :: nat
  dbg_invalid :: "tex set"
  popup_blocked :: bool
  dbg_forwarded :: "(nat \<times> glcall) list"
  dbg_notices :: "notice list"
  dbg_console :: "dbg_line list"
  snapshots :: "tex list"
  windows :: "tex list"

text \<open>\<^verbatim>\<open>armOneShotDebugCapture\<close>; \<open>has_gl\<close> says that \<^verbatim>\<open>canvas.app?.renderer?.gl\<close> is there.\<close>

definition armOneShotDebugCapture :: "bool \<Rightarrow> dbg_world \<Rightarrow> dbg_world" where
  "armOneShotDebugCapture has_gl w =
     (if debugCaptureArmed w
      then w\<lparr>dbg_notices := dbg_notices w @ [Warn_AlreadyArmed]\<rparr>
      else
        let w1 = w\<lparr>debugCaptureArmed := True\<rparr> in
        if \<not> has_gl
        then w1\<lparr>dbg_notices := dbg_notices w1 @ [Error_NoContext],
                debugCaptureArmed := False\<rparr>
        else w1\<lparr>originalUseProgram := dbg_useProgram w1,
                originalDrawElements := dbg_drawElements w1,
                dbg_inTargetShaderPass := False,
                dbg_lastCapturedTexture := None,
                drawCountInPass := 0,
                dbg_console := dbg_console w1 @ [Line_Armed],
                dbg_notices := dbg_notices w1 @ [Info_ReadyForCapture],
                dbg_useProgram := Tap,
                dbg_drawElements := Tap\<rparr>)"

text \<open>The exit branch of the replaced \<^verbatim>\<open>gl.useProgram\<close>.\<close>

definition dbg_capture :: "dbg_world \<Rightarrow> dbg_world" where
  "dbg_capture w =
     (case dbg_lastCapturedTexture w of
        None \<Rightarrow> w\<lparr>dbg_notices := dbg_notices w @ [Warn_NoValidTexture]\<rparr>
      | Some t \<Rightarrow>
          if t \<in> dbg_invalid w
          then w\<lparr>dbg_notices := dbg_notices w @ [Warn_NoValidTexture]\<rparr>
          else
            let w1 = w\<lparr>snapshots := snapshots w @ [t]\<rparr> in
            if popup_blocked w1 then w1 else w1\<lparr>windows := windows w1 @ [t]\<rparr>)"

definition dbg_exit :: "dbg_world \<Rightarrow> dbg_world" where
  "dbg_exit w =
     (if dbg_inTargetShaderPass w
      then
        let w1 = w\<lparr>dbg_console := dbg_console w @ [Line_Exiting (drawCountInPass w)]\<rparr>;
            w2 = dbg_capture w1
        in w2\<lparr>dbg_useProgram := originalUseProgram w2,
               dbg_drawElements := originalDrawElements w2,
               debugCaptureArmed := False,
               dbg_console := dbg_console w2 @ [Line_Complete]\<rparr>
      else w)"

text \<open>The entry test of the replaced \<^verbatim>\<open>gl.useProgram\<close>.\<close>

definition dbg_entry :: "program option \<Rightarrow> dbg_world \<Rightarrow> dbg_world" where
  "dbg_entry ph w =
     (if debug_match ph
      then (if \<not> dbg_inTargetShaderPass w
            then w\<lparr>dbg_console := dbg_console w @ [Line_Entering (programName ph)],
                    dbg_inTargetShaderPass := True,
                    drawCountInPass := 0\<rparr>
            else w)
      else w)"

text \<open>What the replaced \<^verbatim>\<open>gl.drawElements\<close> does after the original has returned.\<close>

definition dbg_record :: "tex option \<Rightarrow> dbg_world \<Rightarrow> dbg_world" where
  "dbg_record t w =
     (if dbg_inTargetShaderPass w
      then w\<lparr>drawCountInPass := drawCountInPass w + 1, dbg_lastCapturedTexture := t\<rparr>
      else w)"

text \<open>
  Calling a function value. The first argument bounds the depth of nested calls;
  at depth zero the call fails as the engine's stack overflow does.
\<close>

primrec dbg_invoke ::
  "nat \<Rightarrow> 'r host_env \<Rightarrow> glfn \<Rightarrow> glcall \<Rightarrow> dbg_world \<Rightarrow> js_error + ('r \<times> dbg_world)" where
  "dbg_invoke 0 env f c w = Inl RangeError"
| "dbg_invoke (Suc k) env f c w =
     (case f of
        Host n \<Rightarrow>
          Inr (host_ret env n c (dbg_forwarded w),
               w\<lparr>dbg_forwarded := dbg_forwarded w @ [(n, c)]\<rparr>)
      | Tap \<Rightarrow>
          (case c of
             UseProgram ph \<Rightarrow>
               (let w1 = dbg_entry ph (dbg_exit w)
                in dbg_invoke k env (originalUseProgram w1) c w1)
           | DrawElements a t \<Rightarrow>
               (case dbg_invoke k env (originalDrawElements w) c w of
                  Inl e \<Rightarrow> Inl e
                | Inr (r, w1) \<Rightarrow> Inr (r, dbg_record t w1))))"

text \<open>A call of the host through the entry point the context holds at that moment.\<close>

definition dbg_gl ::
  "nat \<Rightarrow> 'r host_env \<Rightarrow> glcall \<Rightarrow> dbg_world \<Rightarrow> js_error + ('r \<times> dbg_world)" where
  "dbg_gl k env c w =
     (case c of
        UseProgram ph \<Rightarrow> dbg_invoke k env (dbg_useProgram w) c w
      | DrawElements a t \<Rightarrow> dbg_invoke k env (dbg_drawElements w) c w)"

definition dbg_run ::
  "nat \<Rightarrow> 'r host_env \<Rightarrow> glcall list \<Rightarrow> dbg_world \<Rightarrow> js_error + ('r list \<times> dbg_world)" where
  "dbg_run k env cs w = run_calls (dbg_gl k env) cs w"

section \<open>The real-time capture\<close>

text \<open>
  A surface made by \<^verbatim>\<open>PIXI.RenderTexture.create\<close>: \<open>sid\<close> is the identity of the
  object (the number of surfaces created before it).
\<close>

record surface =
  sid :: nat
  width :: nat
  height :: nat
  resolution :: rat

datatype rt_line =
    Log_Arming
  | Log_FirstCapture
  | Log_TearingDown
  | Log_Resized
  | Warn_NotReady

text \<open>
  The module state (\<open>persistentTexture\<close>, \<open>isApiReady\<close>, \<open>isInterceptorArmed\<close>,
  \<open>originalGLFunctions\<close>: \<open>None\<close> stands for both fields being \<^verbatim>\<open>null\<close>, the code
  assigns the two together), the two entry points of the context, the variables
  of the closure that \<^verbatim>\<open>armRealTimeCapture\<close> creates, and the host: how many times
  \<^verbatim>\<open>onCanvasResize\<close> is registered on the renderer's resize event, the renderer's
  resolution, the surfaces created and destroyed so far, and the host textures
  whose \<^verbatim>\<open>valid\<close> flag is false. The last three fields record effects in order:
  calls that reached an implementation of the host, copies made (source,
  destination) and console lines.
\<close>

record rt_world =
  persistentTexture :: "surface option"
  isApiReady :: bool
  isInterceptorArmed :: bool
  originalGLFunctions :: "(glfn \<times> glfn) option"
  rt_useProgram :: glfn
  rt_drawElements :: glfn
  rt_inTargetShaderPass :: bool
  rt_lastCapturedTexture :: "tex option"
  resize_listeners :: nat
  renderer_resolution :: rat
  created :: nat
  destroyed :: "nat set"
  host_invalid :: "nat set"
  rt_forwarded :: "(nat \<times> glcall) list"
  copies :: "(tex \<times> surface) list"
  rt_console :: "rt_line list"

text \<open>
  What \<^verbatim>\<open>canvas.app\<close> holds when a hook runs: nothing (\<^verbatim>\<open>canvas.app\<close> is
  \<^verbatim>\<open>undefined\<close>), an application whose \<^verbatim>\<open>renderer\<close> is \<^verbatim>\<open>undefined\<close>, a renderer
  whose \<^verbatim>\<open>gl\<close> is \<^verbatim>\<open>undefined\<close>, or a renderer with its context.
\<close>

datatype canvas_app = No_App | No_Renderer | No_Context | Full_Context

definition renderer_there :: "canvas_app \<Rightarrow> bool" where
  "renderer_there app = (case app of No_App \<Rightarrow> False | No_Renderer \<Rightarrow> False | _ \<Rightarrow> True)"

definition context_there :: "canvas_app \<Rightarrow> bool" where
  "context_there app = (case app of Full_Context \<Rightarrow> True | _ \<Rightarrow> False)"

text \<open>
  How a hook handler ends: it returns, or it throws. An exception rolls nothing
  back, so both carry the state the handler has reached.
\<close>

datatype 'w handled = Returned 'w | Threw js_error 'w

primrec state_after :: "'w handled \<Rightarrow> 'w" where
  "state_after (Returned w) = w"
| "state_after (Threw e w) = w"

text \<open>The public API.\<close>

definition getTexture :: "rt_world \<Rightarrow> surface option \<times> rt_world" where
  "getTexture w =
     (if \<not> isApiReady w
      then (None, w\<lparr>rt_console := rt_console w @ [Warn_NotReady]\<rparr>)
      else (persistentTexture w, w))"

definition isReady :: "rt_world \<Rightarrow> bool" where
  "isReady w = isApiReady w"

text \<open>The \<^verbatim>\<open>valid\<close> flag of a texture.\<close>

definition tex_valid :: "rt_world \<Rightarrow> tex \<Rightarrow> bool" where
  "tex_valid w t = (case t of HostTex n \<Rightarrow> n \<notin> host_invalid w | OwnTex i \<Rightarrow> i \<notin> destroyed w)"

text \<open>
  \<^verbatim>\<open>onCanvasResize\<close> logs, destroys the surface it holds, and then reads
  \<^verbatim>\<open>canvas.app.renderer.resolution\<close> for the surface it creates. \<open>onCanvasResize\<close>
  is the function where the renderer is there, as it is whenever the renderer's
  own \<^verbatim>\<open>resize\<close> event calls the listener. Where \<^verbatim>\<open>canvas.app\<close> or its renderer
  is \<^verbatim>\<open>undefined\<close> that read throws a \<^verbatim>\<open>TypeError\<close>, and \<open>onCanvasResize_throws\<close>
  is the state left: the old surface is destroyed, nothing is created, and
  \<open>persistentTexture\<close> still refers to the destroyed surface.
\<close>

definition onCanvasResize_throws :: "rt_world \<Rightarrow> rt_world" where
  "onCanvasResize_throws w =
     (let w1 = w\<lparr>rt_console := rt_console w @ [Log_Resized]\<rparr>
      in case persistentTexture w1 of
           None \<Rightarrow> w1
         | Some s \<Rightarrow> w1\<lparr>destroyed := insert (sid s) (destroyed w1)\<rparr>)"

definition onCanvasResize :: "nat \<Rightarrow> nat \<Rightarrow> rt_world \<Rightarrow> rt_world" where
  "onCanvasResize wd ht w =
     (let w1 = w\<lparr>rt_console := rt_console w @ [Log_Resized]\<rparr>;
          w2 = (case persistentTexture w1 of
                  None \<Rightarrow> w1
                | Some s \<Rightarrow> w1\<lparr>destroyed := insert (sid s) (destroyed w1)\<rparr>)
      in w2\<lparr>persistentTexture :=
               Some \<lparr>sid = created w2, width = wd, height = ht,
                     resolution = renderer_resolution w2\<rparr>,
             created := created w2 + 1\<rparr>)"

text \<open>\<^verbatim>\<open>armRealTimeCapture\<close>; \<open>has_gl\<close> says that \<^verbatim>\<open>canvas.app?.renderer?.gl\<close> is there
  (the chain is safe without an application or a renderer).\<close>

definition armRealTimeCapture :: "bool \<Rightarrow> rt_world \<Rightarrow> rt_world" where
  "armRealTimeCapture has_gl w =
     (if \<not> has_gl \<or> isInterceptorArmed w then w
      else
        let w1 = w\<lparr>rt_console := rt_console w @ [Log_Arming]\<rparr>;
            w2 = (if originalGLFunctions w1 = None
                  then w1\<lparr>originalGLFunctions := Some (rt_useProgram w1, rt_drawElements w1)\<rparr>
                  else w1)
        in w2\<lparr>rt_inTargetShaderPass := False,
               rt_lastCapturedTexture := None,
               rt_useProgram := Tap,
               rt_drawElements := Tap,
               isInterceptorArmed := True\<rparr>)"

text \<open>
  \<^verbatim>\<open>tearDownRealTime\<close>. The entry points are restored through
  \<^verbatim>\<open>canvas.app?.renderer?.gl\<close>, which is safe without an application or a renderer.
  The listener is removed by \<^verbatim>\<open>canvas.app?.renderer.off('resize', onCanvasResize)\<close>:
  without an application the chain stops and no listener is removed; with an
  application whose renderer is \<^verbatim>\<open>undefined\<close> the call of \<^verbatim>\<open>off\<close> throws a
  \<^verbatim>\<open>TypeError\<close>, after the surface has been destroyed and before the two flags
  are reset.
\<close>

definition tearDownRealTime :: "canvas_app \<Rightarrow> rt_world \<Rightarrow> rt_world handled" where
  "tearDownRealTime app w =
     (let w1 = w\<lparr>rt_console := rt_console w @ [Log_TearingDown]\<rparr>;
          w2 = (case originalGLFunctions w1 of
                  None \<Rightarrow> w1
                | Some (u, d) \<Rightarrow>
                    if isInterceptorArmed w1 \<and> context_there app
                    then w1\<lparr>rt_useProgram := u, rt_drawElements := d\<rparr>
                    else w1);
          w3 = (case persistentTexture w2 of
                  None \<Rightarrow> w2
                | Some s \<Rightarrow> w2\<lparr>destroyed := insert (sid s) (destroyed w2),
                                persistentTexture := None\<rparr>)
      in case app of
           No_App \<Rightarrow> Returned (w3\<lparr>isApiReady := False, isInterceptorArmed := False\<rparr>)
         | No_Renderer \<Rightarrow> Threw TypeError w3
         | _ \<Rightarrow> Returned (w3\<lparr>resize_listeners := 0,
                              isApiReady := False, isInterceptorArmed := False\<rparr>))"

text \<open>The entry test of the replaced \<^verbatim>\<open>gl.useProgram\<close>, and what the replaced
  \<^verbatim>\<open>gl.drawElements\<close> does after the original has returned.\<close>

definition rt_entry :: "program option \<Rightarrow> rt_world \<Rightarrow> rt_world" where
  "rt_entry ph w = (if realtime_match ph then w\<lparr>rt_inTargetShaderPass := True\<rparr> else w)"

definition rt_record :: "tex option \<Rightarrow> rt_world \<Rightarrow> rt_world" where
  "rt_record t w = (if rt_inTargetShaderPass w then w\<lparr>rt_lastCapturedTexture := t\<rparr> else w)"

definition rt_slot :: "glcall \<Rightarrow> rt_world \<Rightarrow> glfn" where
  "rt_slot c w = (case c of UseProgram ph \<Rightarrow> rt_useProgram w | DrawElements a t \<Rightarrow> rt_drawElements w)"

definition rt_first_capture :: "rt_world \<Rightarrow> rt_world" where
  "rt_first_capture w =
     (if \<not> isApiReady w
      then w\<lparr>isApiReady := True, rt_console := rt_console w @ [Log_FirstCapture]\<rparr>
      else w)"

text \<open>
  Calling a function value, with a bound on the depth of nested calls as for the
  debug capture. The copy, \<^verbatim>\<open>renderer.render(tempSprite, {renderTexture: persistentTexture})\<close>,
  makes the calls \<open>blit_calls\<close> through the entry points the context holds while
  it runs, so it comes back into the replacements; it is taken not to throw by
  itself.
\<close>

primrec rt_invoke ::
  "nat \<Rightarrow> 'r host_env \<Rightarrow> glfn \<Rightarrow> glcall \<Rightarrow> rt_world \<Rightarrow> js_error + ('r \<times> rt_world)" where
  "rt_invoke 0 env f c w = Inl RangeError"
| "rt_invoke (Suc k) env f c w =
     (case f of
        Host n \<Rightarrow>
          Inr (host_ret env n c (rt_forwarded w),
               w\<lparr>rt_forwarded := rt_forwarded w @ [(n, c)]\<rparr>)
      | Tap \<Rightarrow>
          (case c of
             UseProgram ph \<Rightarrow>
               (case
                  (if rt_inTargetShaderPass w
                   then
                     let w0 = w\<lparr>rt_inTargetShaderPass := False\<rparr> in
                     (case rt_lastCapturedTexture w0 of
                        None \<Rightarrow> Inr w0
                      | Some t \<Rightarrow>
                          if \<not> tex_valid w0 t then Inr w0
                          else
                            (case persistentTexture w0 of
                               None \<Rightarrow> Inr w0
                             | Some s \<Rightarrow>
                                 (case run_calls (\<lambda>c' w'. rt_invoke k env (rt_slot c' w') c' w')
                                         (blit_calls env) w0 of
                                    Inl e \<Rightarrow> Inl e
                                  | Inr (rs, w1) \<Rightarrow>
                                      Inr (rt_first_capture
                                             (w1\<lparr>copies := copies w1 @ [(t, s)]\<rparr>)))))
                   else Inr w)
                of
                  Inl e \<Rightarrow> Inl e
                | Inr w2 \<Rightarrow>
                    (let w3 = rt_entry ph w2 in
                     case originalGLFunctions w3 of
                       None \<Rightarrow> Inl TypeError
                     | Some (u, d) \<Rightarrow> rt_invoke k env u c w3))
           | DrawElements a t \<Rightarrow>
               (case originalGLFunctions w of
                  None \<Rightarrow> Inl TypeError
                | Some (u, d) \<Rightarrow>
                    (case rt_invoke k env d c w of
                       Inl e \<Rightarrow> Inl e
                     | Inr (r, w1) \<Rightarrow> Inr (r, rt_record t w1)))))"

definition rt_gl ::
  "nat \<Rightarrow> 'r host_env \<Rightarrow> glcall \<Rightarrow> rt_world \<Rightarrow> js_error + ('r \<times> rt_world)" where
  "rt_gl k env c w = rt_invoke k env (rt_slot c w) c w"

definition rt_run ::
  "nat \<Rightarrow> 'r host_env \<Rightarrow> glcall list \<Rightarrow> rt_world \<Rightarrow> js_error + ('r list \<times> rt_world)" where
  "rt_run k env cs w = run_calls (rt_gl k env) cs w"

text \<open>
  What the host does in real-time mode: the \<^verbatim>\<open>canvasReady\<close> and \<^verbatim>\<open>canvasTearDown\<close>
  hooks (with what \<^verbatim>\<open>canvas.app\<close> holds when they run), a resize of the renderer
  (every registered listener runs), a call of the context, and a change of the
  \<^verbatim>\<open>valid\<close> flag of one of its own textures.
\<close>

datatype rt_event =
    CanvasReady nat nat canvas_app
  | CanvasTearDown canvas_app
  | Resize nat nat
  | GL glcall
  | HostInvalidate nat
  | HostValidate nat

text \<open>
  The \<^verbatim>\<open>canvasReady\<close> handler calls \<^verbatim>\<open>onCanvasResize\<close>, registers it with
  \<^verbatim>\<open>canvas.app.renderer.on\<close> and calls \<^verbatim>\<open>armRealTimeCapture\<close>. Without a
  renderer its first statement throws and the other two do not run.
\<close>

definition canvasReady_handler ::
  "nat \<Rightarrow> nat \<Rightarrow> canvas_app \<Rightarrow> rt_world \<Rightarrow> rt_world handled" where
  "canvasReady_handler wd ht app w =
     (if renderer_there app
      then
        let w1 = onCanvasResize wd ht w;
            w2 = w1\<lparr>resize_listeners := resize_listeners w1 + 1\<rparr>
        in Returned (armRealTimeCapture (context_there app) w2)
      else Threw TypeError (onCanvasResize_throws w))"

text \<open>
  One event. An exception thrown by a hook handler ends that handler only: the
  session goes on in the state the handler has reached. An exception thrown by a
  call of the context ends the trace.
\<close>

definition rt_step :: "nat \<Rightarrow> 'r host_env \<Rightarrow> rt_event \<Rightarrow> rt_world \<Rightarrow> js_error + rt_world" where
  "rt_step k env e w =
     (case e of
        CanvasReady wd ht app \<Rightarrow> Inr (state_after (canvasReady_handler wd ht app w))
      | CanvasTearDown app \<Rightarrow> Inr (state_after (tearDownRealTime app w))
      | Resize wd ht \<Rightarrow> Inr ((onCanvasResize wd ht ^^ resize_listeners w) w)
      | GL c \<Rightarrow> (case rt_gl k env c w of Inl err \<Rightarrow> Inl err | Inr (r, w1) \<Rightarrow> Inr w1)
      | HostInvalidate n \<Rightarrow> Inr (w\<lparr>host_invalid := insert n (host_invalid w)\<rparr>)
      | HostValidate n \<Rightarrow> Inr (w\<lparr>host_invalid := host_invalid w - {n}\<rparr>))"

fun rt_trace :: "nat \<Rightarrow> 'r host_env \<Rightarrow> rt_event list \<Rightarrow> rt_world \<Rightarrow> js_error + rt_world" where
  "rt_trace k env [] w = Inr w"
| "rt_trace k env (e # es) w =
     (case rt_step k env e w of Inl err \<Rightarrow> Inl err | Inr w1 \<Rightarrow> rt_trace k env es w1)"

text \<open>The module state when the script has been loaded, on a context whose entry
  points are the host's implementations 0 and 1.\<close>

definition rt_loaded :: rt_world where
  "rt_loaded =
     \<lparr>persistentTexture = None, isApiReady = False, isInterceptorArmed = False,
      originalGLFunctions = None, rt_useProgram = Host 0, rt_drawElements = Host 1,
      rt_inTargetShaderPass = False, rt_lastCapturedTexture = None,
      resize_listeners = 0, renderer_resolution = 1, created = 0, destroyed = {},
      host_invalid = {}, rt_forwarded = [], copies = [], rt_console = []\<rparr>"

section \<open>Predicates on states and example inputs\<close>

text \<open>
  An armed, idle debug detector: both entry points hold the replacements, the
  saved originals are implementations of the host, and no pass has been entered.
\<close>

definition dbg_idle :: "dbg_world \<Rightarrow> bool" where
  "dbg_idle w \<longleftrightarrow>
     dbg_useProgram w = Tap \<and> dbg_drawElements w = Tap \<and>
     originalUseProgram w \<noteq> Tap \<and> originalDrawElements w \<noteq> Tap \<and>
     \<not> dbg_inTargetShaderPass w \<and> dbg_lastCapturedTexture w = None"

text \<open>The render target bound at the last of a list of draws (\<^verbatim>\<open>null\<close> when there is none).\<close>

definition captured_target :: "(int list \<times> tex option) list \<Rightarrow> tex option" where
  "captured_target ds = (if ds = [] then None else snd (last ds))"

definition lighting_program :: "program option" where
  "lighting_program =
     Some \<lparr>prog_id = 15, attachedShaders =
       Some [Some ''void main(){}'', Some ''#define SHADER_NAME pixi-shader-15'']\<rparr>"

definition other_program :: "program option" where
  "other_program =
     Some \<lparr>prog_id = 3, attachedShaders =
       Some [Some ''void main(){}'', Some ''#define SHADER_NAME pixi-shader-3'']\<rparr>"

definition unit_env :: "unit host_env" where
  "unit_env = \<lparr>host_ret = (\<lambda>n c h. ()), blit_calls = []\<rparr>"

text \<open>A freshly loaded page, as the debug capture finds it.\<close>

definition dbg_page_load :: dbg_world where
  "dbg_page_load =
     \<lparr>debugCaptureArmed = False, dbg_useProgram = Host 0, dbg_drawElements = Host 1,
      originalUseProgram = Host 0, originalDrawElements = Host 1,
      dbg_inTargetShaderPass = False, dbg_lastCapturedTexture = None, drawCountInPass = 0,
      dbg_invalid = {}, popup_blocked = False, dbg_forwarded = [], dbg_notices = [],
      dbg_console = [], snapshots = [], windows = []\<rparr>"

text \<open>The armed capture after another program was bound and three draws were made.\<close>

definition dbg_scenario_start :: dbg_world where
  "dbg_scenario_start =
     (armOneShotDebugCapture True dbg_page_load)
       \<lparr>dbg_forwarded :=
          [(0, UseProgram other_program), (1, DrawElements [4, 6] (Some (HostTex 1))),
           (1, DrawElements [4, 6] (Some (HostTex 1))), (1, DrawElements [4, 6] (Some (HostTex 2)))]\<rparr>"

text \<open>
  The identifier of a program cannot be resolved: reading the source of its second
  attached shader throws, or yields \<^verbatim>\<open>null\<close>.
\<close>

definition resolution_fails :: "program option \<Rightarrow> bool" where
  "resolution_fails ph =
     (case shader_source ph of Inl e \<Rightarrow> True | Inr None \<Rightarrow> True | Inr (Some source) \<Rightarrow> False)"

text \<open>A program with no attached shader objects.\<close>

definition bare_program :: "program option" where
  "bare_program = Some \<lparr>prog_id = 9, attachedShaders = Some []\<rparr>"

text \<open>
  The armed debug capture after the target program was bound and one draw was
  made, and the state after the target program is then bound again.
\<close>

definition dbg_in_pass :: dbg_world where
  "dbg_in_pass =
     (armOneShotDebugCapture True dbg_page_load)
       \<lparr>dbg_inTargetShaderPass := True,
        drawCountInPass := 1,
        dbg_lastCapturedTexture := Some (HostTex 7),
        dbg_console := [Line_Armed, Line_Entering ''pixi-shader-15''],
        dbg_forwarded := [(0, UseProgram lighting_program),
                          (1, DrawElements [4, 6] (Some (HostTex 7)))]\<rparr>"

definition dbg_after_rebind :: dbg_world where
  "dbg_after_rebind =
     dbg_in_pass
       \<lparr>dbg_console := [Line_Armed, Line_Entering ''pixi-shader-15'', Line_Exiting 1, Line_Complete],
        snapshots := [HostTex 7],
        windows := [HostTex 7],
        dbg_useProgram := Host 0,
        dbg_drawElements := Host 1,
        debugCaptureArmed := False,
        dbg_forwarded := [(0, UseProgram lighting_program),
                          (1, DrawElements [4, 6] (Some (HostTex 7))),
                          (0, UseProgram lighting_program)]\<rparr>"

section \<open>Predicates and reference functions for the real-time tap\<close>

text \<open>
  The baseline the tap is compared with: the host's implementation that a call
  reaches when the entry points are the originals \<open>u\<close> (bind program) and \<open>d\<close>
  (indexed draw), the log a list of calls leaves, and the values the originals
  return for the calls of a list when these are made one after the other on the
  history \<open>h\<close>.
\<close>

definition orig_of :: "nat \<Rightarrow> nat \<Rightarrow> glcall \<Rightarrow> nat" where
  "orig_of u d c = (case c of UseProgram ph \<Rightarrow> u | DrawElements a t \<Rightarrow> d)"

definition tagged :: "nat \<Rightarrow> nat \<Rightarrow> glcall list \<Rightarrow> (nat \<times> glcall) list" where
  "tagged u d cs = map (\<lambda>c. (orig_of u d c, c)) cs"

fun host_replay ::
  "'r host_env \<Rightarrow> nat \<Rightarrow> nat \<Rightarrow> glcall list \<Rightarrow> (nat \<times> glcall) list \<Rightarrow> 'r list" where
  "host_replay env u d [] h = []"
| "host_replay env u d (c # cs) h =
     host_ret env (orig_of u d c) c h # host_replay env u d cs (h @ [(orig_of u d c, c)])"

text \<open>
  The wording of the specification for the installed tap, as a predicate on what
  was observed: the calls \<open>cs\<close> returned \<open>rs\<close> and extended the host's log \<open>h\<close> by
  \<open>ext\<close>. Every call is forwarded once, with its own arguments, to the original of
  its kind, and returns what the original returned; between two forwarded calls
  the log holds nothing, or the calls \<open>b\<close> that one copy makes.
\<close>

fun transparent ::
  "'r host_env \<Rightarrow> nat \<Rightarrow> nat \<Rightarrow> (nat \<times> glcall) list \<Rightarrow> glcall list \<Rightarrow> 'r list \<Rightarrow>
   (nat \<times> glcall) list \<Rightarrow> (nat \<times> glcall) list \<Rightarrow> bool" where
  "transparent env u d b [] rs h ext = (rs = [] \<and> ext = [])"
| "transparent env u d b (c # cs) [] h ext = False"
| "transparent env u d b (c # cs) (r # rs) h ext =
     ((prefix [(orig_of u d c, c)] ext \<and>
       r = host_ret env (orig_of u d c) c h \<and>
       transparent env u d b cs rs (h @ [(orig_of u d c, c)]) (drop 1 ext)) \<or>
      (prefix (b @ [(orig_of u d c, c)]) ext \<and>
       r = host_ret env (orig_of u d c) c (h @ b) \<and>
       transparent env u d b cs rs (h @ b @ [(orig_of u d c, c)]) (drop (length b + 1) ext)))"

text \<open>
  The copy binds no program that matches the target identifier: its sprite is
  drawn with a shader of its own.
\<close>

definition quiet_call :: "glcall \<Rightarrow> bool" where
  "quiet_call c = (case c of UseProgram ph \<Rightarrow> \<not> realtime_match ph | DrawElements a t \<Rightarrow> True)"

definition blit_quiet :: "'r host_env \<Rightarrow> bool" where
  "blit_quiet env = list_all quiet_call (blit_calls env)"

text \<open>The tap is installed over the originals \<open>u\<close> and \<open>d\<close>.\<close>

definition rt_installed :: "nat \<Rightarrow> nat \<Rightarrow> rt_world \<Rightarrow> bool" where
  "rt_installed u d w \<longleftrightarrow>
     rt_useProgram w = Tap \<and> rt_drawElements w = Tap \<and>
     originalGLFunctions w = Some (Host u, Host d)"

text \<open>
  The copy that the next bind of a program makes: none unless a pass is being
  left with a valid last target while a persistent surface exists.
\<close>

definition rt_copy_of :: "rt_world \<Rightarrow> (tex \<times> surface) option" where
  "rt_copy_of w =
     (if rt_inTargetShaderPass w
      then (case rt_lastCapturedTexture w of
              None \<Rightarrow> None
            | Some t \<Rightarrow>
                if tex_valid w t
                then (case persistentTexture w of None \<Rightarrow> None | Some s \<Rightarrow> Some (t, s))
                else None)
      else None)"

definition blit_traffic :: "'r host_env \<Rightarrow> nat \<Rightarrow> nat \<Rightarrow> rt_world \<Rightarrow> (nat \<times> glcall) list" where
  "blit_traffic env u d w =
     (case rt_copy_of w of None \<Rightarrow> [] | Some c \<Rightarrow> tagged u d (blit_calls env))"

definition after_bind ::
  "'r host_env \<Rightarrow> nat \<Rightarrow> nat \<Rightarrow> program option \<Rightarrow> rt_world \<Rightarrow> rt_world" where
  "after_bind env u d ph w =
     w\<lparr>rt_inTargetShaderPass := realtime_match ph,
       copies := copies w @ (case rt_copy_of w of None \<Rightarrow> [] | Some c \<Rightarrow> [c]),
       isApiReady := (isApiReady w \<or> rt_copy_of w \<noteq> None),
       rt_console := rt_console w @
          (if rt_copy_of w \<noteq> None \<and> \<not> isApiReady w then [Log_FirstCapture] else []),
       rt_forwarded := rt_forwarded w @ blit_traffic env u d w @ [(u, UseProgram ph)]\<rparr>"

text \<open>
  What a call of the context leaves alone (\<open>same_host\<close>), and the copies it adds:
  each goes from a valid texture into the persistent surface of that moment, and
  the API is ready afterwards exactly if it was before or a copy was added.
\<close>

definition new_copies :: "rt_world \<Rightarrow> rt_world \<Rightarrow> (tex \<times> surface) list" where
  "new_copies w w' = drop (length (copies w)) (copies w')"

definition same_host :: "rt_world \<Rightarrow> rt_world \<Rightarrow> bool" where
  "same_host w w' \<longleftrightarrow>
     persistentTexture w' = persistentTexture w \<and> destroyed w' = destroyed w \<and>
     created w' = created w \<and> host_invalid w' = host_invalid w \<and>
     rt_useProgram w' = rt_useProgram w \<and> rt_drawElements w' = rt_drawElements w \<and>
     originalGLFunctions w' = originalGLFunctions w \<and>
     isInterceptorArmed w' = isInterceptorArmed w \<and>
     resize_listeners w' = resize_listeners w \<and>
     renderer_resolution w' = renderer_resolution w"

definition gl_frame :: "rt_world \<Rightarrow> rt_world \<Rightarrow> bool" where
  "gl_frame w w' \<longleftrightarrow>
     same_host w w' \<and>
     copies w' = copies w @ new_copies w w' \<and>
     list_all (\<lambda>c. persistentTexture w = Some (snd c) \<and> tex_valid w (fst c)) (new_copies w w') \<and>
     isApiReady w' = (isApiReady w \<or> new_copies w w' \<noteq> [])"

text \<open>
  The invariant of the buffer manager: a ready API has a surface; the surface in
  use was created and is not destroyed; only created surfaces are destroyed.
\<close>

definition rt_inv :: "rt_world \<Rightarrow> bool" where
  "rt_inv w \<longleftrightarrow>
     (isApiReady w \<longrightarrow> persistentTexture w \<noteq> None) \<and>
     pred_option (\<lambda>s. sid s < created w \<and> sid s \<notin> destroyed w) (persistentTexture w) \<and>
     (\<forall>i \<in> destroyed w. i < created w)"

text \<open>An event whose handler returns: a hook that finds \<^verbatim>\<open>canvas.app\<close> as its
  handler needs it, or any other event.\<close>

definition handler_returns :: "rt_event \<Rightarrow> bool" where
  "handler_returns e =
     (case e of
        CanvasReady wd ht app \<Rightarrow> renderer_there app
      | CanvasTearDown app \<Rightarrow> app \<noteq> No_Renderer
      | _ \<Rightarrow> True)"

text \<open>A surface is populated when some copy went into it.\<close>

definition populated :: "rt_world \<Rightarrow> surface \<Rightarrow> bool" where
  "populated w s = list_ex (\<lambda>c. sid (snd c) = sid s) (copies w)"

text \<open>
  The entry points over a whole session: either the tap is installed over the
  originals \<open>u\<close> and \<open>d\<close>, or the entry points are these originals, the
  interceptor is not armed and nothing else has been saved.
\<close>

definition entry_points_sound :: "nat \<Rightarrow> nat \<Rightarrow> rt_world \<Rightarrow> bool" where
  "entry_points_sound u d w \<longleftrightarrow>
     rt_installed u d w \<or>
     (rt_useProgram w = Host u \<and> rt_drawElements w = Host d \<and> \<not> isInterceptorArmed w \<and>
      (originalGLFunctions w = None \<or> originalGLFunctions w = Some (Host u, Host d)))"

section \<open>Example inputs for the real-time tap\<close>

text \<open>
  A host whose implementations return the number of calls made before, and whose
  copy binds another program and issues one draw into the persistent surface; the
  state after \<^verbatim>\<open>canvasReady\<close> at 800 by 600; and the state after the target
  program was then bound and one draw was made into a texture of the host.
\<close>

definition count_env :: "nat host_env" where
  "count_env =
     \<lparr>host_ret = (\<lambda>n c h. length h),
      blit_calls = [UseProgram other_program, DrawElements [4, 6] (Some (OwnTex 0))]\<rparr>"

definition buffer800 :: surface where
  "buffer800 = \<lparr>sid = 0, width = 800, height = 600, resolution = 1\<rparr>"

definition rt_ready800 :: rt_world where
  "rt_ready800 = state_after (canvasReady_handler 800 600 Full_Context rt_loaded)"

definition rt_in_pass :: rt_world where
  "rt_in_pass =
     rt_ready800\<lparr>rt_inTargetShaderPass := True,
       rt_lastCapturedTexture := Some (HostTex 7),
       rt_forwarded := [(0, UseProgram lighting_program),
                        (1, DrawElements [4, 6] (Some (HostTex 7)))]\<rparr>"

text \<open>
  The state before the tap is armed (the surface exists, the entry points are the
  host's), and a short stream of calls: the target program, a draw, another
  program, a draw.
\<close>

definition rt_before_arm :: rt_world where
  "rt_before_arm = (onCanvasResize 800 600 rt_loaded)\<lparr>resize_listeners := 1\<rparr>"

definition example_calls :: "glcall list" where
  "example_calls =
     [UseProgram lighting_program, DrawElements [4, 6] (Some (HostTex 7)),
      UseProgram other_program, DrawElements [4, 6] (Some (HostTex 8))]"

text \<open>
  The example continued: the state after another program was bound (the first
  copy), that state after a resize to 1920 by 1080, and the state when the resize
  comes while the pass is open and the other program is bound afterwards.
\<close>

definition buffer1920 :: surface where
  "buffer1920 = \<lparr>sid = 1, width = 1920, height = 1080, resolution = 1\<rparr>"

definition rt_after_copy :: rt_world where
  "rt_after_copy = after_bind count_env 0 1 other_program rt_in_pass"

definition rt_after_resize :: rt_world where
  "rt_after_resize = onCanvasResize 1920 1080 rt_after_copy"

definition rt_copied_after_resize :: rt_world where
  "rt_copied_after_resize =
     after_bind count_env 0 1 other_program (onCanvasResize 1920 1080 rt_in_pass)"

text \<open>
  The state in which \<^verbatim>\<open>tearDownRealTime\<close> throws when it runs after the first copy
  with an application whose renderer is \<^verbatim>\<open>undefined\<close>: the line is logged, the
  surface is destroyed and the reference to it cleared; nothing else has changed.
\<close>

definition rt_torn_halfway :: rt_world where
  "rt_torn_halfway =
     rt_after_copy\<lparr>rt_console := rt_console rt_after_copy @ [Log_TearingDown],
       destroyed := {0}, persistentTexture := None\<rparr>"

text \<open>A host whose copy binds the target program itself, and then another one.\<close>

definition loud_env :: "unit host_env" where
  "loud_env = \<lparr>host_ret = (\<lambda>n c h. ()),
                blit_calls = [UseProgram lighting_program, UseProgram other_program]\<rparr>"

section \<open>The activation through libWrapper, with the ready hook\<close>

text \<open>
  The variant of the module that copies in a wrapper around
  \<^verbatim>\<open>canvas.effects.illumination.filter.apply\<close> and announces itself with the hook
  \<^verbatim>\<open>illuminationBufferReady\<close>. What the \<^verbatim>\<open>canvasReady\<close> handler finds: whether there is
  a renderer, the size of its screen, whether it has a graphics context, the two
  settings, whether libWrapper is active and whether the filter's \<^verbatim>\<open>apply\<close> exists.
\<close>

record v3_host =
  has_renderer :: bool
  screen_width :: nat
  screen_height :: nat
  renderer_has_gl :: bool
  debugMode :: bool
  livePreview :: bool
  libWrapper_active :: bool
  filter_apply_found :: bool

datatype v3_notice = Error_TargetNotFound | Warn_NeedsLibWrapper

text \<open>A call of \<^verbatim>\<open>Hooks.callAll('illuminationBufferReady', api)\<close>; the payload is the API object.\<close>

datatype hook_call = IlluminationBufferReady

text \<open>
  \<open>canvasReady_pending\<close>: the handler registered with \<^verbatim>\<open>Hooks.once\<close> has not run yet;
  \<open>api_persistentTexture\<close> is \<^verbatim>\<open>api._persistentTexture\<close>; \<open>didCopy\<close> is
  \<^verbatim>\<open>interceptorState.didCopy\<close>; \<open>previewSprite\<close> holds the texture of the preview
  sprite when there is one; \<open>v3_debug\<close> is the state of the one-shot capture of
  this variant.
\<close>

record v3_world =
  canvasReady_pending :: bool
  api_persistentTexture :: "surface option"
  v3_created :: nat
  v3_destroyed :: "nat set"
  v3_invalid :: "tex set"
  didCopy :: bool
  filter_wrapped :: bool
  previewSprite :: "surface option option"
  ticker_added :: bool
  hook_calls :: "hook_call list"
  v3_copies :: "(tex \<times> surface) list"
  v3_notices :: "v3_notice list"
  v3_debug :: dbg_world

text \<open>\<^verbatim>\<open>api.initialize\<close>, \<^verbatim>\<open>api.getLightingTexture\<close> and \<^verbatim>\<open>api.updateFromSource\<close>. The
  surface is created without a resolution, which leaves the default, 1.\<close>

definition api_initialize :: "nat \<Rightarrow> nat \<Rightarrow> v3_world \<Rightarrow> v3_world" where
  "api_initialize wd ht w =
     (let w1 = (case api_persistentTexture w of
                  None \<Rightarrow> w
                | Some s \<Rightarrow> w\<lparr>v3_destroyed := insert (sid s) (v3_destroyed w)\<rparr>)
      in w1\<lparr>api_persistentTexture :=
               Some \<lparr>sid = v3_created w1, width = wd, height = ht, resolution = 1\<rparr>,
             v3_created := v3_created w1 + 1\<rparr>)"

definition getLightingTexture :: "v3_world \<Rightarrow> surface option" where
  "getLightingTexture w = api_persistentTexture w"

definition updateFromSource :: "tex option \<Rightarrow> v3_world \<Rightarrow> v3_world" where
  "updateFromSource sourceTexture w =
     (case sourceTexture of
        None \<Rightarrow> w
      | Some t \<Rightarrow>
          if t \<in> v3_invalid w then w
          else (case api_persistentTexture w of
                  None \<Rightarrow> w
                | Some s \<Rightarrow>
                    if sid s \<in> v3_destroyed w then w
                    else w\<lparr>v3_copies := v3_copies w @ [(t, s)]\<rparr>))"

text \<open>
  \<^verbatim>\<open>oneShotDebugCapture\<close> of this variant: the same replacements as
  \<^verbatim>\<open>armOneShotDebugCapture\<close>, but the graphics context is looked for before the
  guard is tested or set.
\<close>

definition oneShotDebugCapture :: "bool \<Rightarrow> dbg_world \<Rightarrow> dbg_world" where
  "oneShotDebugCapture has_gl w =
     (if \<not> has_gl then w\<lparr>dbg_notices := dbg_notices w @ [Error_NoContext]\<rparr>
      else if debugCaptureArmed w
      then w\<lparr>dbg_notices := dbg_notices w @ [Warn_AlreadyArmed]\<rparr>
      else
        w\<lparr>debugCaptureArmed := True,
          originalUseProgram := dbg_useProgram w,
          originalDrawElements := dbg_drawElements w,
          dbg_inTargetShaderPass := False,
          dbg_lastCapturedTexture := None,
          drawCountInPass := 0,
          dbg_console := dbg_console w @ [Line_Armed],
          dbg_notices := dbg_notices w @ [Info_ReadyForCapture],
          dbg_useProgram := Tap,
          dbg_drawElements := Tap\<rparr>)"

text \<open>The handler of \<^verbatim>\<open>Hooks.once("canvasReady", ...)\<close>.\<close>

definition v3_canvasReady :: "v3_host \<Rightarrow> v3_world \<Rightarrow> v3_world" where
  "v3_canvasReady h w =
     (if \<not> canvasReady_pending w then w
      else
        let w0 = w\<lparr>canvasReady_pending := False\<rparr> in
        if \<not> has_renderer h then w0
        else if debugMode h
        then w0\<lparr>v3_debug := oneShotDebugCapture (renderer_has_gl h) (v3_debug w0)\<rparr>
        else
          let w1 = api_initialize (screen_width h) (screen_height h) w0;
              w2 = (if libWrapper_active h
                    then (if filter_apply_found h
                          then w1\<lparr>filter_wrapped := True\<rparr>
                          else w1\<lparr>v3_notices := v3_notices w1 @ [Error_TargetNotFound]\<rparr>)
                    else w1\<lparr>v3_notices := v3_notices w1 @ [Warn_NeedsLibWrapper]\<rparr>);
              w3 = (if livePreview h
                    then w2\<lparr>previewSprite := Some (getLightingTexture w2)\<rparr>
                    else w2);
              w4 = w3\<lparr>ticker_added := True\<rparr>
          in w4\<lparr>hook_calls := hook_calls w4 @ [IlluminationBufferReady]\<rparr>)"

text \<open>The wrapper around the filter's \<^verbatim>\<open>apply\<close> (its second argument is the source
  texture) and the function added to the ticker.\<close>

definition v3_filter_apply :: "tex option \<Rightarrow> v3_world \<Rightarrow> v3_world" where
  "v3_filter_apply sourceTexture w =
     (if filter_wrapped w
      then (updateFromSource sourceTexture w)\<lparr>didCopy := True\<rparr>
      else w)"

definition v3_tick :: "v3_world \<Rightarrow> v3_world" where
  "v3_tick w =
     (if ticker_added w \<and> didCopy w
      then
        let w1 = w\<lparr>didCopy := False\<rparr> in
        (case previewSprite w1 of
           None \<Rightarrow> w1
         | Some t \<Rightarrow> w1\<lparr>previewSprite := Some (getLightingTexture w1)\<rparr>)
      else w)"

datatype v3_event =
    V3_CanvasReady v3_host
  | V3_FilterApply "tex option"
  | V3_Tick

definition v3_step :: "v3_event \<Rightarrow> v3_world \<Rightarrow> v3_world" where
  "v3_step e w =
     (case e of
        V3_CanvasReady h \<Rightarrow> v3_canvasReady h w
      | V3_FilterApply t \<Rightarrow> v3_filter_apply t w
      | V3_Tick \<Rightarrow> v3_tick w)"

fun v3_trace :: "v3_event list \<Rightarrow> v3_world \<Rightarrow> v3_world" where
  "v3_trace [] w = w"
| "v3_trace (e # es) w = v3_trace es (v3_step e w)"

definition v3_loaded :: v3_world where
  "v3_loaded =
     \<lparr>canvasReady_pending = True, api_persistentTexture = None, v3_created = 0,
      v3_destroyed = {}, v3_invalid = {}, didCopy = False, filter_wrapped = False,
      previewSprite = None, ticker_added = False, hook_calls = [], v3_copies = [],
      v3_notices = [], v3_debug = dbg_page_load\<rparr>"

text \<open>A host in real-time mode, with libWrapper and the filter in place.\<close>

definition realtime_host :: v3_host where
  "realtime_host =
     \<lparr>has_renderer = True, screen_width = 800, screen_height = 600, renderer_has_gl = True,
      debugMode = False, livePreview = False, libWrapper_active = True,
      filter_apply_found = True\<rparr>"

section \<open>Facts about running calls\<close>

lemma run_calls_append:
  "run_calls step (xs @ ys) w =
     (case run_calls step xs w of
        Inl e \<Rightarrow> Inl e
      | Inr (rs, w1) \<Rightarrow>
          (case run_calls step ys w1 of
             Inl e \<Rightarrow> Inl e
           | Inr (rs', w2) \<Rightarrow> Inr (rs @ rs', w2)))"
  by (induction xs arbitrary: w) (auto split: sum.splits)

text \<open>\<open>str_includes\<close> is the substring relation.\<close>

lemma str_includes_sublist: "str_includes s t \<longleftrightarrow> sublist t s"
  by (induction s) (auto simp: sublist_Cons_right)

lemmas match_defs = debug_match_def programName_def shader_source_def SHADER_NAME_DEFINE_def
  name_group_def is_space_def trim_def TARGET_def realtime_match_def

lemma lighting_matches: "debug_match lighting_program"
  by (simp add: lighting_program_def match_defs)

lemma other_no_match: "\<not> debug_match other_program"
  by (simp add: other_program_def match_defs)

lemma lighting_name: "programName lighting_program = ''pixi-shader-15''"
  by (simp add: lighting_program_def match_defs)

section \<open>The one-shot debug capture: one pass, one event\<close>

lemma dbg_exit_fields [simp]:
  "originalUseProgram (dbg_exit w) = originalUseProgram w"
  "originalDrawElements (dbg_exit w) = originalDrawElements w"
  "dbg_forwarded (dbg_exit w) = dbg_forwarded w"
  "dbg_inTargetShaderPass (dbg_exit w) = dbg_inTargetShaderPass w"
  "drawCountInPass (dbg_exit w) = drawCountInPass w"
  "dbg_lastCapturedTexture (dbg_exit w) = dbg_lastCapturedTexture w"
  by (simp_all add: dbg_exit_def dbg_capture_def Let_def split: option.splits)

lemma dbg_entry_fields [simp]:
  "originalUseProgram (dbg_entry p w) = originalUseProgram w"
  "originalDrawElements (dbg_entry p w) = originalDrawElements w"
  "dbg_forwarded (dbg_entry p w) = dbg_forwarded w"
  "dbg_useProgram (dbg_entry p w) = dbg_useProgram w"
  "dbg_drawElements (dbg_entry p w) = dbg_drawElements w"
  "debugCaptureArmed (dbg_entry p w) = debugCaptureArmed w"
  "dbg_lastCapturedTexture (dbg_entry p w) = dbg_lastCapturedTexture w"
  by (simp_all add: dbg_entry_def)

lemma dbg_tap_useProgram:
  assumes "originalUseProgram w = Host u"
  shows "dbg_invoke (Suc (Suc k)) env Tap (UseProgram p) w =
     Inr (host_ret env u (UseProgram p) (dbg_forwarded w),
          (dbg_entry p (dbg_exit w))\<lparr>dbg_forwarded := dbg_forwarded w @ [(u, UseProgram p)]\<rparr>)"
  using assms by (simp add: Let_def)

lemma dbg_tap_drawElements:
  assumes "originalDrawElements w = Host d"
  shows "dbg_invoke (Suc (Suc k)) env Tap (DrawElements a t) w =
     Inr (host_ret env d (DrawElements a t) (dbg_forwarded w),
          dbg_record t (w\<lparr>dbg_forwarded := dbg_forwarded w @ [(d, DrawElements a t)]\<rparr>))"
  using assms by simp

lemma dbg_exit_in_pass:
  assumes "dbg_inTargetShaderPass v"
  shows "dbg_console (dbg_exit v) = dbg_console v @ [Line_Exiting (drawCountInPass v), Line_Complete]"
    and "snapshots (dbg_exit v) = snapshots v @
          (case dbg_lastCapturedTexture v of
             None \<Rightarrow> []
           | Some t \<Rightarrow> if t \<in> dbg_invalid v then [] else [t])"
    and "dbg_useProgram (dbg_exit v) = originalUseProgram v"
    and "dbg_drawElements (dbg_exit v) = originalDrawElements v"
    and "\<not> debugCaptureArmed (dbg_exit v)"
  using assms by (simp_all add: dbg_exit_def dbg_capture_def Let_def split: option.splits)

lemma dbg_entry_no_match: "\<not> debug_match q \<Longrightarrow> dbg_entry q v = v"
  by (simp add: dbg_entry_def)

lemma dbg_draws_in_pass:
  assumes "dbg_drawElements w = Tap" "originalDrawElements w = Host d" "dbg_inTargetShaderPass w"
  shows "\<exists>rs. dbg_run (Suc (Suc k)) env (map (\<lambda>(a, t). DrawElements a t) ds) w =
     Inr (rs, w\<lparr>dbg_forwarded := dbg_forwarded w @ map (\<lambda>(a, t). (d, DrawElements a t)) ds,
                 drawCountInPass := drawCountInPass w + length ds,
                 dbg_lastCapturedTexture :=
                   (if ds = [] then dbg_lastCapturedTexture w else snd (last ds))\<rparr>)"
  using assms
proof (induction ds arbitrary: w)
  case Nil
  then show ?case by (simp add: dbg_run_def)
next
  case (Cons x ds)
  obtain a t where x: "x = (a, t)" by (cases x)
  define w1 where "w1 = dbg_record t (w\<lparr>dbg_forwarded := dbg_forwarded w @ [(d, DrawElements a t)]\<rparr>)"
  have step: "dbg_gl (Suc (Suc k)) env (DrawElements a t) w =
      Inr (host_ret env d (DrawElements a t) (dbg_forwarded w), w1)"
    using Cons.prems by (simp add: w1_def dbg_gl_def dbg_tap_drawElements del: dbg_invoke.simps)
  have w1: "dbg_drawElements w1 = Tap" "originalDrawElements w1 = Host d" "dbg_inTargetShaderPass w1"
    using Cons.prems by (simp_all add: w1_def dbg_record_def)
  from Cons.IH[OF w1] obtain rs where
    rs: "run_calls (dbg_gl (Suc (Suc k)) env) (map (\<lambda>(a, t). DrawElements a t) ds) w1 =
      Inr (rs, w1\<lparr>dbg_forwarded := dbg_forwarded w1 @ map (\<lambda>(a, t). (d, DrawElements a t)) ds,
                 drawCountInPass := drawCountInPass w1 + length ds,
                 dbg_lastCapturedTexture :=
                   (if ds = [] then dbg_lastCapturedTexture w1 else snd (last ds))\<rparr>)"
    unfolding dbg_run_def by blast
  show ?case
    using Cons.prems
    apply (simp only: dbg_run_def list.map x prod.case run_calls.simps step sum.case rs)
    apply (simp add: w1_def dbg_record_def)
    done
qed

text \<open>
  C1. From an armed, idle detector, a bind of a program that matches the target
  identifier, then N indexed draws, then a bind of a program that does not match:
  all calls return, the console gains exactly one exit line and it carries N, the
  captured target is the render target that was bound at the N-th draw (none when
  N is 0), a read-back is taken of it when it is valid, and the replacements are
  gone, so that nothing more can be emitted.
\<close>

theorem one_pass_one_event:
  assumes idle: "dbg_idle w" and p: "debug_match p" and q: "\<not> debug_match q"
  shows "\<exists>rs w'.
     dbg_run (Suc (Suc k)) env
        (UseProgram p # map (\<lambda>(a, t). DrawElements a t) ds @ [UseProgram q]) w = Inr (rs, w') \<and>
     dbg_console w' =
        dbg_console w @ [Line_Entering (programName p), Line_Exiting (length ds), Line_Complete] \<and>
     dbg_lastCapturedTexture w' = captured_target ds \<and>
     snapshots w' = snapshots w @
        (case captured_target ds of
           None \<Rightarrow> []
         | Some t \<Rightarrow> if t \<in> dbg_invalid w then [] else [t]) \<and>
     dbg_useProgram w' = originalUseProgram w \<and>
     dbg_drawElements w' = originalDrawElements w \<and>
     \<not> debugCaptureArmed w'"
proof -
  obtain u d where u: "originalUseProgram w = Host u" and d: "originalDrawElements w = Host d"
    using idle unfolding dbg_idle_def
    by (cases "originalUseProgram w"; cases "originalDrawElements w") auto
  have slots: "dbg_useProgram w = Tap" "dbg_drawElements w = Tap"
    and fresh: "\<not> dbg_inTargetShaderPass w" "dbg_lastCapturedTexture w = None"
    using idle by (simp_all add: dbg_idle_def)
  define w1 where
    "w1 = (dbg_entry p (dbg_exit w))\<lparr>dbg_forwarded := dbg_forwarded w @ [(u, UseProgram p)]\<rparr>"
  have s1: "dbg_gl (Suc (Suc k)) env (UseProgram p) w =
      Inr (host_ret env u (UseProgram p) (dbg_forwarded w), w1)"
    using slots u by (simp add: w1_def dbg_gl_def dbg_tap_useProgram del: dbg_invoke.simps)
  have w1: "dbg_drawElements w1 = Tap" "originalDrawElements w1 = Host d"
    "dbg_inTargetShaderPass w1" "dbg_useProgram w1 = Tap" "originalUseProgram w1 = Host u"
    "drawCountInPass w1 = 0" "dbg_lastCapturedTexture w1 = None"
    "dbg_console w1 = dbg_console w @ [Line_Entering (programName p)]"
    "snapshots w1 = snapshots w" "dbg_invalid w1 = dbg_invalid w"
    using slots u d fresh p by (simp_all add: w1_def dbg_exit_def dbg_entry_def)
  define w2 where
    "w2 = w1\<lparr>dbg_forwarded := dbg_forwarded w1 @ map (\<lambda>(a, t). (d, DrawElements a t)) ds,
             drawCountInPass := drawCountInPass w1 + length ds,
             dbg_lastCapturedTexture :=
               (if ds = [] then dbg_lastCapturedTexture w1 else snd (last ds))\<rparr>"
  obtain rs where
    s2: "run_calls (dbg_gl (Suc (Suc k)) env) (map (\<lambda>(a, t). DrawElements a t) ds) w1 = Inr (rs, w2)"
    using dbg_draws_in_pass[OF w1(1,2,3)] unfolding w2_def dbg_run_def by blast
  have w2: "dbg_useProgram w2 = Tap" "originalUseProgram w2 = Host u"
    "originalDrawElements w2 = Host d"
    "dbg_inTargetShaderPass w2" "drawCountInPass w2 = length ds"
    "dbg_lastCapturedTexture w2 = captured_target ds"
    "dbg_console w2 = dbg_console w @ [Line_Entering (programName p)]"
    "snapshots w2 = snapshots w" "dbg_invalid w2 = dbg_invalid w"
    using w1 by (simp_all add: w2_def captured_target_def)
  define w3 where
    "w3 = (dbg_exit w2)\<lparr>dbg_forwarded := dbg_forwarded w2 @ [(u, UseProgram q)]\<rparr>"
  have s3: "dbg_gl (Suc (Suc k)) env (UseProgram q) w2 =
      Inr (host_ret env u (UseProgram q) (dbg_forwarded w2), w3)"
    using w2(1,2)
    by (simp only: w3_def dbg_gl_def glcall.case dbg_tap_useProgram dbg_entry_no_match[OF q])
  have run: "dbg_run (Suc (Suc k)) env
        (UseProgram p # map (\<lambda>(a, t). DrawElements a t) ds @ [UseProgram q]) w =
      Inr (host_ret env u (UseProgram p) (dbg_forwarded w) # rs @
             [host_ret env u (UseProgram q) (dbg_forwarded w2)], w3)"
    by (simp only: dbg_run_def run_calls.simps run_calls_append s1 s2 s3 sum.case prod.case
        append.simps)
  have w3: "dbg_console w3 =
        dbg_console w @ [Line_Entering (programName p), Line_Exiting (length ds), Line_Complete]"
     "dbg_lastCapturedTexture w3 = captured_target ds"
     "snapshots w3 = snapshots w @
        (case captured_target ds of
           None \<Rightarrow> []
         | Some t \<Rightarrow> if t \<in> dbg_invalid w then [] else [t])"
     "dbg_useProgram w3 = originalUseProgram w"
     "dbg_drawElements w3 = originalDrawElements w"
     "\<not> debugCaptureArmed w3"
    using dbg_exit_in_pass[OF w2(4)] u d
    by (simp_all add: w3_def w2 cong: option.case_cong)
  from run w3 show ?thesis by blast
qed

text \<open>
  The scenario of the specification: another program and three draws went before;
  then the target program, five draws, and another program.
\<close>

theorem one_pass_one_event_witness:
  "dbg_idle dbg_scenario_start \<and> debug_match lighting_program \<and> \<not> debug_match other_program \<and>
   (\<exists>rs w'.
     dbg_run 2 unit_env
        (UseProgram lighting_program #
         map (\<lambda>(a, t). DrawElements a t)
           [([4, 6], Some (HostTex 7)), ([4, 6], Some (HostTex 7)), ([4, 6], Some (HostTex 8)),
            ([4, 6], Some (HostTex 8)), ([4, 12], Some (HostTex 9))] @
         [UseProgram other_program]) dbg_scenario_start = Inr (rs, w') \<and>
     dbg_console w' = [Line_Armed, Line_Entering ''pixi-shader-15'', Line_Exiting 5, Line_Complete] \<and>
     dbg_lastCapturedTexture w' = Some (HostTex 9) \<and>
     snapshots w' = [HostTex 9])"
proof -
  have idle: "dbg_idle dbg_scenario_start"
    by (simp add: dbg_idle_def dbg_scenario_start_def armOneShotDebugCapture_def dbg_page_load_def)
  have start: "dbg_console dbg_scenario_start = [Line_Armed]" "snapshots dbg_scenario_start = []"
    "dbg_invalid dbg_scenario_start = {}"
    by (simp_all add: dbg_scenario_start_def armOneShotDebugCapture_def dbg_page_load_def)
  have five: "length [([4, 6], Some (HostTex 7)), ([4, 6], Some (HostTex 7)),
      ([4, 6], Some (HostTex 8)), ([4, 6], Some (HostTex 8)), ([4::int, 12], Some (HostTex 9))] = 5"
    by simp
  show ?thesis
    using one_pass_one_event [OF idle lighting_matches other_no_match, of 0 unit_env
        "[([4, 6], Some (HostTex 7)), ([4, 6], Some (HostTex 7)), ([4, 6], Some (HostTex 8)),
            ([4, 6], Some (HostTex 8)), ([4, 12], Some (HostTex 9))]"]
    unfolding five lighting_name start captured_target_def numeral_2_eq_2
    by (simp add: idle lighting_matches other_no_match del: run_calls.simps) blast
qed

text \<open>The state the scenario starts from is the one the first four calls leave.\<close>

lemma dbg_scenario_prefix:
  "dbg_run 2 unit_env
     [UseProgram other_program, DrawElements [4, 6] (Some (HostTex 1)),
      DrawElements [4, 6] (Some (HostTex 1)), DrawElements [4, 6] (Some (HostTex 2))]
     (armOneShotDebugCapture True dbg_page_load) = Inr ([(), (), (), ()], dbg_scenario_start)"
  by (simp add: dbg_run_def dbg_scenario_start_def armOneShotDebugCapture_def dbg_page_load_def
      dbg_gl_def numeral_2_eq_2 dbg_exit_def dbg_entry_no_match other_no_match dbg_record_def
      unit_env_def)

section \<open>Arming the one-shot debug capture\<close>

text \<open>
  C8. Arming installs nothing in exactly two cases. When the guard is already set,
  the only effect is the warning: guard, entry points and detector state are
  unchanged. When there is no graphics context, the only lasting effect is the
  error report, and the guard is clear afterwards. In the remaining case both
  replacements are installed and the guard is set.
\<close>

theorem arm_debug_aborts:
  "(debugCaptureArmed w \<longrightarrow>
      armOneShotDebugCapture g w = w\<lparr>dbg_notices := dbg_notices w @ [Warn_AlreadyArmed]\<rparr>) \<and>
   (\<not> debugCaptureArmed w \<and> \<not> g \<longrightarrow>
      armOneShotDebugCapture g w = w\<lparr>dbg_notices := dbg_notices w @ [Error_NoContext]\<rparr> \<and>
      \<not> debugCaptureArmed (armOneShotDebugCapture g w)) \<and>
   (\<not> debugCaptureArmed w \<and> g \<longrightarrow>
      dbg_useProgram (armOneShotDebugCapture g w) = Tap \<and>
      dbg_drawElements (armOneShotDebugCapture g w) = Tap \<and>
      debugCaptureArmed (armOneShotDebugCapture g w))"
  by (simp add: armOneShotDebugCapture_def)

theorem arm_debug_aborts_witness:
  "debugCaptureArmed (armOneShotDebugCapture True dbg_page_load) \<and>
   armOneShotDebugCapture True (armOneShotDebugCapture True dbg_page_load) =
     (armOneShotDebugCapture True dbg_page_load)
       \<lparr>dbg_notices := [Info_ReadyForCapture, Warn_AlreadyArmed]\<rparr> \<and>
   \<not> debugCaptureArmed dbg_page_load \<and>
   armOneShotDebugCapture False dbg_page_load = dbg_page_load\<lparr>dbg_notices := [Error_NoContext]\<rparr> \<and>
   dbg_useProgram (armOneShotDebugCapture False dbg_page_load) = Host 0 \<and>
   dbg_useProgram (armOneShotDebugCapture True dbg_page_load) = Tap \<and>
   dbg_drawElements (armOneShotDebugCapture True dbg_page_load) = Tap"
proof -
  have a: "debugCaptureArmed (armOneShotDebugCapture True dbg_page_load)"
    and n: "dbg_notices (armOneShotDebugCapture True dbg_page_load) = [Info_ReadyForCapture]"
    and b: "\<not> debugCaptureArmed dbg_page_load" "dbg_notices dbg_page_load = []"
      "dbg_useProgram dbg_page_load = Host 0"
    by (simp_all add: armOneShotDebugCapture_def dbg_page_load_def)
  show ?thesis
    using arm_debug_aborts [of "armOneShotDebugCapture True dbg_page_load" True]
      arm_debug_aborts [of dbg_page_load False] arm_debug_aborts [of dbg_page_load True]
    by (simp add: a n b)
qed

section \<open>The real-time tap: single calls\<close>

lemma rt_tap_drawElements:
  assumes "originalGLFunctions w = Some (Host u, Host d)"
  shows "rt_invoke (Suc (Suc k)) env Tap (DrawElements a t) w =
     Inr (host_ret env d (DrawElements a t) (rt_forwarded w),
          rt_record t (w\<lparr>rt_forwarded := rt_forwarded w @ [(d, DrawElements a t)]\<rparr>))"
  using assms by simp

lemma rt_tap_useProgram_idle:
  assumes "originalGLFunctions w = Some (Host u, Host d)" "\<not> rt_inTargetShaderPass w"
  shows "rt_invoke (Suc (Suc k)) env Tap (UseProgram ph) w =
     Inr (host_ret env u (UseProgram ph) (rt_forwarded w),
          w\<lparr>rt_inTargetShaderPass := realtime_match ph,
            rt_forwarded := rt_forwarded w @ [(u, UseProgram ph)]\<rparr>)"
  using assms by (simp add: rt_entry_def Let_def)

lemma rt_quiet_calls:
  assumes "rt_installed u d w" "\<not> rt_inTargetShaderPass w" "list_all quiet_call cs"
  shows "run_calls (\<lambda>c' w'. rt_invoke (Suc (Suc k)) env (rt_slot c' w') c' w') cs w =
     Inr (host_replay env u d cs (rt_forwarded w),
          w\<lparr>rt_forwarded := rt_forwarded w @ tagged u d cs\<rparr>)"
  using assms
proof (induction cs arbitrary: w)
  case Nil
  then show ?case by (simp add: tagged_def)
next
  case (Cons c cs)
  have og: "originalGLFunctions w = Some (Host u, Host d)"
    and slots: "rt_useProgram w = Tap" "rt_drawElements w = Tap"
    using Cons.prems(1) by (simp_all add: rt_installed_def)
  define w1 where "w1 = w\<lparr>rt_forwarded := rt_forwarded w @ [(orig_of u d c, c)]\<rparr>"
  have step: "rt_invoke (Suc (Suc k)) env (rt_slot c w) c w =
      Inr (host_ret env (orig_of u d c) c (rt_forwarded w), w1)"
  proof (cases c)
    case (UseProgram ph)
    then have "\<not> realtime_match ph" using Cons.prems(3) by (simp add: quiet_call_def)
    then show ?thesis
      using UseProgram slots Cons.prems(2)
      by (simp add: rt_slot_def rt_tap_useProgram_idle[OF og] orig_of_def w1_def
          del: rt_invoke.simps)
  next
    case (DrawElements a t)
    then show ?thesis
      using slots Cons.prems(2)
      by (simp add: rt_slot_def rt_tap_drawElements[OF og] orig_of_def w1_def rt_record_def
          del: rt_invoke.simps)
  qed
  have w1: "rt_installed u d w1" "\<not> rt_inTargetShaderPass w1" "list_all quiet_call cs"
    using Cons.prems by (simp_all add: w1_def rt_installed_def)
  show ?case
    by (simp only: run_calls.simps step sum.case prod.case Cons.IH[OF w1] host_replay.simps)
       (simp add: w1_def tagged_def)
qed

lemma tex_valid_upd [simp]:
  "tex_valid (w\<lparr>rt_inTargetShaderPass := b\<rparr>) t = tex_valid w t"
  "tex_valid (w\<lparr>rt_forwarded := f\<rparr>) t = tex_valid w t"
  "tex_valid (w\<lparr>copies := cp\<rparr>) t = tex_valid w t"
  "tex_valid (w\<lparr>rt_lastCapturedTexture := l\<rparr>) t = tex_valid w t"
  "tex_valid (w\<lparr>isApiReady := r\<rparr>) t = tex_valid w t"
  "tex_valid (w\<lparr>rt_console := cn\<rparr>) t = tex_valid w t"
  by (simp_all add: tex_valid_def split: tex.splits)

lemma rt_invoke_Host:
  "rt_invoke (Suc k) env (Host n) c w =
     Inr (host_ret env n c (rt_forwarded w), w\<lparr>rt_forwarded := rt_forwarded w @ [(n, c)]\<rparr>)"
  by simp

lemma rt_tap_useProgram:
  assumes inst: "rt_installed u d w" and quiet: "blit_quiet env"
  shows "rt_invoke (Suc (Suc (Suc k))) env Tap (UseProgram ph) w =
     Inr (host_ret env u (UseProgram ph) (rt_forwarded w @ blit_traffic env u d w),
          after_bind env u d ph w)"
proof (cases "rt_copy_of w")
  case None
  have og: "originalGLFunctions w = Some (Host u, Host d)"
    using inst by (simp add: rt_installed_def)
  from None og show ?thesis
    apply (subst rt_invoke.simps(2))
    apply (simp add: rt_copy_of_def after_bind_def blit_traffic_def rt_entry_def Let_def rt_invoke_Host
        del: rt_invoke.simps split: option.splits if_splits)
    done
next
  case (Some c)
  obtain t s where c: "c = (t, s)" by (cases c)
  have og: "originalGLFunctions w = Some (Host u, Host d)"
    using inst by (simp add: rt_installed_def)
  have facts: "rt_inTargetShaderPass w" "rt_lastCapturedTexture w = Some t" "tex_valid w t"
    "persistentTexture w = Some s"
    using Some c by (auto simp: rt_copy_of_def split: option.splits if_splits)
  define w0 where "w0 = w\<lparr>rt_inTargetShaderPass := False\<rparr>"
  have w0: "rt_installed u d w0" "\<not> rt_inTargetShaderPass w0"
    using inst by (simp_all add: w0_def rt_installed_def)
  have blit: "run_calls (\<lambda>c' w'. rt_invoke (Suc (Suc k)) env (rt_slot c' w') c' w') (blit_calls env) w0 =
     Inr (host_replay env u d (blit_calls env) (rt_forwarded w0),
          w0\<lparr>rt_forwarded := rt_forwarded w0 @ tagged u d (blit_calls env)\<rparr>)"
    using rt_quiet_calls[OF w0] quiet by (simp add: blit_quiet_def)
  have tv: "tex_valid w0 t" using facts by (simp add: w0_def)
  show ?thesis
    apply (subst rt_invoke.simps(2))
    apply (simp only: glfn.case glcall.case facts if_True Let_def w0_def[symmetric])
    apply (simp only: w0_def rt_world.simps facts option.case tv[unfolded w0_def] if_False not_True_eq_False
        blit[unfolded w0_def] sum.case prod.case)
    apply (simp add: og Some c facts after_bind_def blit_traffic_def rt_entry_def rt_first_capture_def
        rt_invoke_Host del: rt_invoke.simps)
    done
qed

section \<open>The real-time tap: what a call of the context can change\<close>

lemma gl_frame_refl: "gl_frame w w"
  by (simp add: gl_frame_def same_host_def new_copies_def)

lemma tex_valid_frame:
  "same_host w w' \<Longrightarrow> tex_valid w' t = tex_valid w t"
  by (simp add: tex_valid_def same_host_def split: tex.splits)

lemma same_host_trans: "same_host a b \<Longrightarrow> same_host b c \<Longrightarrow> same_host a c"
  by (simp add: same_host_def)

lemma new_copies_trans:
  assumes "copies b = copies a @ new_copies a b" "copies c = copies b @ new_copies b c"
  shows "new_copies a c = new_copies a b @ new_copies b c"
proof -
  have "copies c = copies a @ (new_copies a b @ new_copies b c)"
    using assms by simp
  then show ?thesis
    unfolding new_copies_def[of a c] by simp
qed

lemma gl_frame_trans:
  assumes ab: "gl_frame a b" and bc: "gl_frame b c"
  shows "gl_frame a c"
proof -
  have sab: "same_host a b" and sbc: "same_host b c"
    using ab bc by (simp_all add: gl_frame_def)
  have cab: "copies b = copies a @ new_copies a b" and cbc: "copies c = copies b @ new_copies b c"
    using ab bc by (simp_all add: gl_frame_def)
  have n: "new_copies a c = new_copies a b @ new_copies b c"
    using cab cbc by (rule new_copies_trans)
  have pt: "persistentTexture b = persistentTexture a"
    using sab by (simp add: same_host_def)
  have l1: "list_all (\<lambda>c. persistentTexture a = Some (snd c) \<and> tex_valid a (fst c)) (new_copies a b)"
    using ab by (simp add: gl_frame_def)
  have "list_all (\<lambda>c. persistentTexture b = Some (snd c) \<and> tex_valid b (fst c)) (new_copies b c)"
    using bc by (simp add: gl_frame_def)
  then have l2: "list_all (\<lambda>c. persistentTexture a = Some (snd c) \<and> tex_valid a (fst c)) (new_copies b c)"
    by (simp add: pt tex_valid_frame[OF sab])
  have r1: "isApiReady b = (isApiReady a \<or> new_copies a b \<noteq> [])"
    and r2: "isApiReady c = (isApiReady b \<or> new_copies b c \<noteq> [])"
    using ab bc by (simp_all add: gl_frame_def)
  have 1: "same_host a c" using sab sbc by (rule same_host_trans)
  have 2: "copies c = copies a @ new_copies a c" using cab cbc n by simp
  have 3: "list_all (\<lambda>c. persistentTexture a = Some (snd c) \<and> tex_valid a (fst c)) (new_copies a c)"
    using l1 l2 n by simp
  have 4: "isApiReady c = (isApiReady a \<or> new_copies a c \<noteq> [])"
    using r1 r2 n by auto
  from 1 2 3 4 show ?thesis unfolding gl_frame_def by blast
qed

lemma run_calls_frame:
  assumes "\<And>c w r w'. step c w = Inr (r, w') \<Longrightarrow> gl_frame w w'"
    and "run_calls step cs w = Inr (rs, w')"
  shows "gl_frame w w'"
  using assms(2)
proof (induction cs arbitrary: w rs)
  case Nil
  then show ?case by (simp add: gl_frame_refl)
next
  case (Cons c cs)
  from Cons.prems obtain r w1 rs' where
    s: "step c w = Inr (r, w1)" and r: "run_calls step cs w1 = Inr (rs', w')"
    by (auto split: sum.splits)
  from assms(1)[OF s] Cons.IH[OF r] show ?case by (rule gl_frame_trans)
qed

lemma gl_frame_simple:
  "gl_frame w (w\<lparr>rt_forwarded := f\<rparr>)"
  "gl_frame w (w\<lparr>rt_inTargetShaderPass := b\<rparr>)"
  "gl_frame w (rt_entry ph w)"
  "gl_frame w (rt_record t w)"
  by (simp_all add: gl_frame_def same_host_def new_copies_def rt_entry_def rt_record_def)

lemma gl_frame_copy:
  assumes "persistentTexture w = Some s" "tex_valid w t"
  shows "gl_frame w (rt_first_capture (w\<lparr>copies := copies w @ [(t, s)]\<rparr>))"
  using assms
  by (simp add: gl_frame_def same_host_def new_copies_def rt_first_capture_def)

lemma rt_invoke_frame:
  "rt_invoke k env f c w = Inr (r, w') \<Longrightarrow> gl_frame w w'"
proof (induction k arbitrary: f c w r w')
  case 0
  then show ?case by simp
next
  case (Suc k)
  show ?case
  proof (cases f)
    case (Host n)
    with Suc.prems show ?thesis by (auto simp: gl_frame_simple)
  next
    case Tap
    show ?thesis
    proof (cases c)
      case (DrawElements a t)
      with Tap Suc.prems obtain u d w1 where
        "rt_invoke k env d c w = Inr (r, w1)" "w' = rt_record t w1"
        by (auto split: option.splits sum.splits)
      then show ?thesis
        using Suc.IH gl_frame_trans gl_frame_simple(4) by blast
    next
      case (UseProgram ph)
      define ex where "ex =
         (if rt_inTargetShaderPass w
          then
            let w0 = w\<lparr>rt_inTargetShaderPass := False\<rparr> in
            (case rt_lastCapturedTexture w0 of
               None \<Rightarrow> Inr w0
             | Some t \<Rightarrow>
                 if \<not> tex_valid w0 t then Inr w0
                 else
                   (case persistentTexture w0 of
                      None \<Rightarrow> Inr w0
                    | Some s \<Rightarrow>
                        (case run_calls (\<lambda>c' w'. rt_invoke k env (rt_slot c' w') c' w')
                                (blit_calls env) w0 of
                           Inl e \<Rightarrow> Inl e
                         | Inr (rs, w1) \<Rightarrow>
                             Inr (rt_first_capture
                                    (w1\<lparr>copies := copies w1 @ [(t, s)]\<rparr>)))))
          else (Inr w :: js_error + rt_world))"
      from Suc.prems Tap UseProgram obtain w2 u d where
        ex: "ex = Inr w2" and og: "originalGLFunctions (rt_entry ph w2) = Some (u, d)"
        and fw: "rt_invoke k env u c (rt_entry ph w2) = Inr (r, w')"
        unfolding ex_def by (auto simp: Let_def split: sum.splits option.splits)
      have "gl_frame w w2"
      proof (cases "rt_inTargetShaderPass w")
        case False
        with ex show ?thesis by (simp add: ex_def gl_frame_refl)
      next
        case True
        define w0 where "w0 = w\<lparr>rt_inTargetShaderPass := False\<rparr>"
        have f0: "gl_frame w w0" by (simp add: w0_def gl_frame_simple)
        show ?thesis
        proof (cases "\<exists>t s. rt_lastCapturedTexture w = Some t \<and> tex_valid w t \<and> persistentTexture w = Some s")
          case False
          then have "ex = Inr w0"
            using True by (auto simp: ex_def w0_def Let_def split: option.splits)
          with ex f0 show ?thesis by simp
        next
          case True2: True
          then obtain t s where ts: "rt_lastCapturedTexture w = Some t" "tex_valid w t"
            "persistentTexture w = Some s" by blast
          from ex True ts obtain rs w1 where
            blit: "run_calls (\<lambda>c' w'. rt_invoke k env (rt_slot c' w') c' w') (blit_calls env) w0 = Inr (rs, w1)"
            and w2: "w2 = rt_first_capture (w1\<lparr>copies := copies w1 @ [(t, s)]\<rparr>)"
            by (auto simp: ex_def w0_def Let_def split: sum.splits)
          have f1: "gl_frame w0 w1"
            using run_calls_frame[OF _ blit] Suc.IH by blast
          have f01: "gl_frame w w1" using f0 f1 by (rule gl_frame_trans)
          have sh: "same_host w w1" using f01 by (simp add: gl_frame_def)
          have "persistentTexture w1 = Some s" "tex_valid w1 t"
            using sh ts by (simp_all add: tex_valid_frame) (simp add: same_host_def)
          then have "gl_frame w1 w2" unfolding w2 by (rule gl_frame_copy)
          with f01 show ?thesis by (rule gl_frame_trans)
        qed
      qed
      moreover have "gl_frame w2 (rt_entry ph w2)" by (rule gl_frame_simple)
      moreover have "gl_frame (rt_entry ph w2) w'" using Suc.IH[OF fw] .
      ultimately show ?thesis using gl_frame_trans by blast
    qed
  qed
qed

section \<open>The buffer manager over the lifecycle\<close>

lemma resize_fields [simp]:
  "isApiReady (onCanvasResize wd ht w) = isApiReady w"
  "copies (onCanvasResize wd ht w) = copies w"
  "created (onCanvasResize wd ht w) = Suc (created w)"
  "persistentTexture (onCanvasResize wd ht w) =
     Some \<lparr>sid = created w, width = wd, height = ht, resolution = renderer_resolution w\<rparr>"
  "destroyed (onCanvasResize wd ht w) =
     (case persistentTexture w of None \<Rightarrow> destroyed w | Some s \<Rightarrow> insert (sid s) (destroyed w))"
  "rt_useProgram (onCanvasResize wd ht w) = rt_useProgram w"
  "rt_drawElements (onCanvasResize wd ht w) = rt_drawElements w"
  "originalGLFunctions (onCanvasResize wd ht w) = originalGLFunctions w"
  "isInterceptorArmed (onCanvasResize wd ht w) = isInterceptorArmed w"
  "rt_inTargetShaderPass (onCanvasResize wd ht w) = rt_inTargetShaderPass w"
  "rt_lastCapturedTexture (onCanvasResize wd ht w) = rt_lastCapturedTexture w"
  "host_invalid (onCanvasResize wd ht w) = host_invalid w"
  "resize_listeners (onCanvasResize wd ht w) = resize_listeners w"
  "renderer_resolution (onCanvasResize wd ht w) = renderer_resolution w"
  "rt_forwarded (onCanvasResize wd ht w) = rt_forwarded w"
  by (simp_all add: onCanvasResize_def Let_def split: option.splits)

lemma arm_fields [simp]:
  "isApiReady (armRealTimeCapture g w) = isApiReady w"
  "copies (armRealTimeCapture g w) = copies w"
  "created (armRealTimeCapture g w) = created w"
  "persistentTexture (armRealTimeCapture g w) = persistentTexture w"
  "destroyed (armRealTimeCapture g w) = destroyed w"
  "host_invalid (armRealTimeCapture g w) = host_invalid w"
  "resize_listeners (armRealTimeCapture g w) = resize_listeners w"
  "rt_forwarded (armRealTimeCapture g w) = rt_forwarded w"
  by (simp_all add: armRealTimeCapture_def Let_def)

lemma resize_throws_fields [simp]:
  "isApiReady (onCanvasResize_throws w) = isApiReady w"
  "copies (onCanvasResize_throws w) = copies w"
  "created (onCanvasResize_throws w) = created w"
  "persistentTexture (onCanvasResize_throws w) = persistentTexture w"
  "destroyed (onCanvasResize_throws w) =
     (case persistentTexture w of None \<Rightarrow> destroyed w | Some s \<Rightarrow> insert (sid s) (destroyed w))"
  "rt_useProgram (onCanvasResize_throws w) = rt_useProgram w"
  "rt_drawElements (onCanvasResize_throws w) = rt_drawElements w"
  "originalGLFunctions (onCanvasResize_throws w) = originalGLFunctions w"
  "isInterceptorArmed (onCanvasResize_throws w) = isInterceptorArmed w"
  "resize_listeners (onCanvasResize_throws w) = resize_listeners w"
  "rt_forwarded (onCanvasResize_throws w) = rt_forwarded w"
  by (simp_all add: onCanvasResize_throws_def Let_def split: option.splits)

lemma teardown_outcome:
  "tearDownRealTime app w =
     (if app = No_Renderer then Threw TypeError (state_after (tearDownRealTime app w))
      else Returned (state_after (tearDownRealTime app w)))"
  by (cases app) (simp_all add: tearDownRealTime_def Let_def)

lemma teardown_fields [simp]:
  "isApiReady (state_after (tearDownRealTime app w)) = (app = No_Renderer \<and> isApiReady w)"
  "isInterceptorArmed (state_after (tearDownRealTime app w)) =
     (app = No_Renderer \<and> isInterceptorArmed w)"
  "copies (state_after (tearDownRealTime app w)) = copies w"
  "created (state_after (tearDownRealTime app w)) = created w"
  "persistentTexture (state_after (tearDownRealTime app w)) = None"
  "destroyed (state_after (tearDownRealTime app w)) =
     (case persistentTexture w of None \<Rightarrow> destroyed w | Some s \<Rightarrow> insert (sid s) (destroyed w))"
  "resize_listeners (state_after (tearDownRealTime app w)) =
     (if renderer_there app then 0 else resize_listeners w)"
  "rt_forwarded (state_after (tearDownRealTime app w)) = rt_forwarded w"
  "originalGLFunctions (state_after (tearDownRealTime app w)) = originalGLFunctions w"
  by (cases app; simp add: tearDownRealTime_def renderer_there_def Let_def
        split: option.splits prod.splits)+

lemma rt_inv_resize: "rt_inv w \<Longrightarrow> rt_inv (onCanvasResize wd ht w)"
  by (auto simp: rt_inv_def split: option.splits)

lemma rt_inv_resizes: "rt_inv w \<Longrightarrow> rt_inv ((onCanvasResize wd ht ^^ n) w)"
  by (induction n) (simp_all add: rt_inv_resize)

lemma rt_inv_arm: "rt_inv w \<Longrightarrow> rt_inv (armRealTimeCapture g w)"
  by (simp add: rt_inv_def)

lemma rt_inv_frame:
  assumes "rt_inv w" "gl_frame w w'"
  shows "rt_inv w'"
proof -
  have sh: "same_host w w'" and r: "isApiReady w' = (isApiReady w \<or> new_copies w w' \<noteq> [])"
    and l: "list_all (\<lambda>c. persistentTexture w = Some (snd c) \<and> tex_valid w (fst c)) (new_copies w w')"
    using assms(2) by (simp_all add: gl_frame_def)
  have "new_copies w w' \<noteq> [] \<Longrightarrow> persistentTexture w \<noteq> None"
    using l by (cases "new_copies w w'") auto
  then show ?thesis
    using assms(1) sh r by (auto simp: rt_inv_def same_host_def split: option.splits)
qed

lemma rt_gl_frame: "rt_gl k env c w = Inr (r, w') \<Longrightarrow> gl_frame w w'"
  unfolding rt_gl_def by (rule rt_invoke_frame)

text \<open>
  The invariant is kept by every event whose handler returns. A handler that
  throws breaks it: a failed \<^verbatim>\<open>canvasReady\<close> leaves \<open>persistentTexture\<close> on a
  destroyed surface, a failed teardown leaves a ready API without a surface.
\<close>

lemma rt_inv_ready:
  assumes "rt_inv w" "renderer_there app"
  shows "rt_inv (state_after (canvasReady_handler wd ht app w))"
proof -
  have "rt_inv (onCanvasResize wd ht w)" using assms(1) by (rule rt_inv_resize)
  then have "rt_inv ((onCanvasResize wd ht w)\<lparr>resize_listeners := resize_listeners (onCanvasResize wd ht w) + 1\<rparr>)"
    unfolding rt_inv_def by simp
  then have "rt_inv (armRealTimeCapture (context_there app)
      ((onCanvasResize wd ht w)\<lparr>resize_listeners := resize_listeners (onCanvasResize wd ht w) + 1\<rparr>))"
    by (rule rt_inv_arm)
  with assms(2) show ?thesis by (simp add: canvasReady_handler_def Let_def)
qed

lemma rt_inv_teardown:
  "rt_inv w \<Longrightarrow> app \<noteq> No_Renderer \<Longrightarrow> rt_inv (state_after (tearDownRealTime app w))"
  by (auto simp: rt_inv_def split: option.splits)

lemma rt_inv_step:
  assumes "rt_inv w" "handler_returns e" "rt_step k env e w = Inr w'"
  shows "rt_inv w'"
proof (cases e)
  case (GL c)
  with assms(3) obtain r where "rt_gl k env c w = Inr (r, w')"
    by (auto simp: rt_step_def split: sum.splits)
  then have "gl_frame w w'" by (rule rt_gl_frame)
  with assms(1) show ?thesis by (rule rt_inv_frame)
next
  case (CanvasReady wd ht app)
  with assms(3) have "w' = state_after (canvasReady_handler wd ht app w)"
    by (simp add: rt_step_def)
  moreover have "renderer_there app" using assms(2) CanvasReady by (simp add: handler_returns_def)
  ultimately show ?thesis using assms(1) by (simp add: rt_inv_ready)
next
  case (CanvasTearDown app)
  with assms(3) have "w' = state_after (tearDownRealTime app w)" by (simp add: rt_step_def)
  moreover have "app \<noteq> No_Renderer" using assms(2) CanvasTearDown by (simp add: handler_returns_def)
  ultimately show ?thesis using assms(1) by (simp add: rt_inv_teardown)
next
  case (Resize wd ht)
  with assms(3) have "w' = (onCanvasResize wd ht ^^ resize_listeners w) w" by (simp add: rt_step_def)
  with assms(1) show ?thesis by (simp add: rt_inv_resizes)
next
  case (HostInvalidate n)
  with assms(3) have "w' = w\<lparr>host_invalid := insert n (host_invalid w)\<rparr>" by (simp add: rt_step_def)
  with assms(1) show ?thesis by (simp add: rt_inv_def)
next
  case (HostValidate n)
  with assms(3) have "w' = w\<lparr>host_invalid := host_invalid w - {n}\<rparr>" by (simp add: rt_step_def)
  with assms(1) show ?thesis by (simp add: rt_inv_def)
qed

lemma rt_inv_trace:
  assumes "rt_inv w" "list_all handler_returns es" "rt_trace k env es w = Inr w'"
  shows "rt_inv w'"
  using assms
proof (induction es arbitrary: w)
  case Nil
  then show ?case by simp
next
  case (Cons e es)
  from Cons.prems(3) obtain w1 where s: "rt_step k env e w = Inr w1"
    and t: "rt_trace k env es w1 = Inr w'"
    by (auto split: sum.splits)
  from Cons.prems(2) have h: "handler_returns e" "list_all handler_returns es" by simp_all
  from Cons.IH[OF rt_inv_step[OF Cons.prems(1) h(1) s] h(2) t] show ?case .
qed

lemma resizes_ready: "isApiReady ((onCanvasResize wd ht ^^ n) w) = isApiReady w"
  by (induction n) simp_all

lemma resizes_copies: "copies ((onCanvasResize wd ht ^^ n) w) = copies w"
  by (induction n) simp_all

section \<open>The real-time tap: calls through the installed tap\<close>


lemma rt_gl_useProgram:
  assumes "rt_installed u d w" "blit_quiet env"
  shows "rt_gl (Suc (Suc (Suc k))) env (UseProgram ph) w =
     Inr (host_ret env u (UseProgram ph) (rt_forwarded w @ blit_traffic env u d w),
          after_bind env u d ph w)"
proof -
  have "rt_slot (UseProgram ph) w = Tap"
    using assms(1) by (simp add: rt_slot_def rt_installed_def)
  then show ?thesis
    unfolding rt_gl_def using rt_tap_useProgram[OF assms] by simp
qed

lemma rt_gl_drawElements:
  assumes "rt_installed u d w"
  shows "rt_gl (Suc (Suc k)) env (DrawElements a t) w =
     Inr (host_ret env d (DrawElements a t) (rt_forwarded w),
          rt_record t (w\<lparr>rt_forwarded := rt_forwarded w @ [(d, DrawElements a t)]\<rparr>))"
proof -
  have "rt_slot (DrawElements a t) w = Tap" "originalGLFunctions w = Some (Host u, Host d)"
    using assms by (simp_all add: rt_slot_def rt_installed_def)
  then show ?thesis
    unfolding rt_gl_def using rt_tap_drawElements by simp
qed

lemma after_bind_fields [simp]:
  "rt_inTargetShaderPass (after_bind env u d ph w) = realtime_match ph"
  "copies (after_bind env u d ph w) =
     copies w @ (case rt_copy_of w of None \<Rightarrow> [] | Some c \<Rightarrow> [c])"
  "isApiReady (after_bind env u d ph w) = (isApiReady w \<or> rt_copy_of w \<noteq> None)"
  "rt_forwarded (after_bind env u d ph w) =
     rt_forwarded w @ blit_traffic env u d w @ [(u, UseProgram ph)]"
  "rt_lastCapturedTexture (after_bind env u d ph w) = rt_lastCapturedTexture w"
  "persistentTexture (after_bind env u d ph w) = persistentTexture w"
  "rt_useProgram (after_bind env u d ph w) = rt_useProgram w"
  "rt_drawElements (after_bind env u d ph w) = rt_drawElements w"
  "originalGLFunctions (after_bind env u d ph w) = originalGLFunctions w"
  "isInterceptorArmed (after_bind env u d ph w) = isInterceptorArmed w"
  "destroyed (after_bind env u d ph w) = destroyed w"
  "created (after_bind env u d ph w) = created w"
  "host_invalid (after_bind env u d ph w) = host_invalid w"
  by (simp_all add: after_bind_def)

lemma rt_installed_after_bind [simp]:
  "rt_installed u' d' (after_bind env u d ph w) = rt_installed u' d' w"
  by (simp add: rt_installed_def)

lemma rt_installed_record [simp]:
  "rt_installed u d (rt_record t w) = rt_installed u d w"
  "rt_installed u d (w\<lparr>rt_forwarded := f\<rparr>) = rt_installed u d w"
  by (simp_all add: rt_installed_def rt_record_def)


lemma rt_gl_host:
  assumes "rt_useProgram w = Host u" "rt_drawElements w = Host d"
  shows "rt_gl (Suc j) env c w =
     Inr (host_ret env (orig_of u d c) c (rt_forwarded w),
          w\<lparr>rt_forwarded := rt_forwarded w @ [(orig_of u d c, c)]\<rparr>)"
  using assms by (cases c) (simp_all add: rt_gl_def rt_slot_def orig_of_def)

lemma rt_run_host:
  assumes "rt_useProgram w = Host u" "rt_drawElements w = Host d"
  shows "rt_run (Suc j) env cs w =
     Inr (host_replay env u d cs (rt_forwarded w),
          w\<lparr>rt_forwarded := rt_forwarded w @ tagged u d cs\<rparr>)"
  using assms
proof (induction cs arbitrary: w)
  case Nil
  then show ?case by (simp add: rt_run_def tagged_def)
next
  case (Cons c cs)
  define w1 where "w1 = w\<lparr>rt_forwarded := rt_forwarded w @ [(orig_of u d c, c)]\<rparr>"
  have s: "rt_gl (Suc j) env c w = Inr (host_ret env (orig_of u d c) c (rt_forwarded w), w1)"
    unfolding w1_def using Cons.prems by (rule rt_gl_host)
  have w1: "rt_useProgram w1 = Host u" "rt_drawElements w1 = Host d"
    using Cons.prems by (simp_all add: w1_def)
  have ih: "run_calls (rt_gl (Suc j) env) cs w1 =
     Inr (host_replay env u d cs (rt_forwarded w1),
          w1\<lparr>rt_forwarded := rt_forwarded w1 @ tagged u d cs\<rparr>)"
    using Cons.IH[OF w1] by (simp add: rt_run_def)
  show ?case
    by (simp only: rt_run_def run_calls.simps s sum.case prod.case ih host_replay.simps)
       (simp add: w1_def tagged_def)
qed

lemma rt_gl_installed:
  assumes inst: "rt_installed u d w" and quiet: "blit_quiet env"
  shows "\<exists>b w1. (b = [] \<or> b = tagged u d (blit_calls env)) \<and>
     rt_gl (Suc (Suc (Suc k))) env c w =
       Inr (host_ret env (orig_of u d c) c (rt_forwarded w @ b), w1) \<and>
     rt_forwarded w1 = rt_forwarded w @ b @ [(orig_of u d c, c)] \<and>
     rt_installed u d w1 \<and> isInterceptorArmed w1 = isInterceptorArmed w"
proof (cases c)
  case (UseProgram ph)
  have "blit_traffic env u d w = [] \<or> blit_traffic env u d w = tagged u d (blit_calls env)"
    by (simp add: blit_traffic_def split: option.splits)
  then show ?thesis
    using rt_gl_useProgram[OF inst quiet, of k ph] inst UseProgram
    by (intro exI[of _ "blit_traffic env u d w"] exI[of _ "after_bind env u d ph w"])
       (simp add: orig_of_def)
next
  case (DrawElements a t)
  show ?thesis
    using rt_gl_drawElements[OF inst, of "Suc k" env a t] inst DrawElements
    by (intro exI[of _ "[]"]
          exI[of _ "rt_record t (w\<lparr>rt_forwarded := rt_forwarded w @ [(d, DrawElements a t)]\<rparr>)"])
       (simp add: orig_of_def rt_record_def rt_installed_def)
qed

lemma rt_run_installed:
  assumes "rt_installed u d w" "blit_quiet env"
  shows "\<exists>rs w1 ext.
     rt_run (Suc (Suc (Suc k))) env cs w = Inr (rs, w1) \<and>
     rt_forwarded w1 = rt_forwarded w @ ext \<and>
     transparent env u d (tagged u d (blit_calls env)) cs rs (rt_forwarded w) ext \<and>
     rt_installed u d w1 \<and> isInterceptorArmed w1 = isInterceptorArmed w"
  using assms(1)
proof (induction cs arbitrary: w)
  case Nil
  then show ?case by (simp add: rt_run_def)
next
  case (Cons c cs)
  let ?B = "tagged u d (blit_calls env)"
  let ?e = "(orig_of u d c, c)"
  from rt_gl_installed[OF Cons.prems assms(2), of k c] obtain b w1 where
    b: "b = [] \<or> b = ?B"
    and s: "rt_gl (Suc (Suc (Suc k))) env c w =
       Inr (host_ret env (orig_of u d c) c (rt_forwarded w @ b), w1)"
    and f1: "rt_forwarded w1 = rt_forwarded w @ b @ [?e]"
    and i1: "rt_installed u d w1" and a1: "isInterceptorArmed w1 = isInterceptorArmed w"
    by blast
  from Cons.IH[OF i1] obtain rs w2 ext where
    r: "run_calls (rt_gl (Suc (Suc (Suc k))) env) cs w1 = Inr (rs, w2)"
    and f2: "rt_forwarded w2 = rt_forwarded w1 @ ext"
    and t2: "transparent env u d ?B cs rs (rt_forwarded w1) ext"
    and i2: "rt_installed u d w2" and a2: "isInterceptorArmed w2 = isInterceptorArmed w1"
    unfolding rt_run_def by blast
  have run: "rt_run (Suc (Suc (Suc k))) env (c # cs) w =
      Inr (host_ret env (orig_of u d c) c (rt_forwarded w @ b) # rs, w2)"
    by (simp only: rt_run_def run_calls.simps s r sum.case prod.case)
  have fw: "rt_forwarded w2 = rt_forwarded w @ (b @ ?e # ext)"
    using f1 f2 by simp
  have tr: "transparent env u d ?B (c # cs)
      (host_ret env (orig_of u d c) c (rt_forwarded w @ b) # rs) (rt_forwarded w) (b @ ?e # ext)"
  proof (cases "b = []")
    case True
    then show ?thesis using t2 f1 by simp
  next
    case False
    with b have bB: "b = ?B" by simp
    have "prefix (?B @ [?e]) (?B @ ?e # ext)" by simp
    moreover have "drop (length ?B + 1) (?B @ ?e # ext) = ext" by simp
    moreover have "transparent env u d ?B cs rs (rt_forwarded w @ ?B @ [?e]) ext"
      using t2 f1 bB by simp
    ultimately show ?thesis
      unfolding bB by (simp only: transparent.simps simp_thms)
  qed
  from run fw tr i2 a1 a2 show ?case by auto
qed

lemma arm_installs:
  assumes "rt_useProgram w0 = Host u" "rt_drawElements w0 = Host d" "\<not> isInterceptorArmed w0"
    and "originalGLFunctions w0 = None \<or> originalGLFunctions w0 = Some (Host u, Host d)"
  shows "rt_installed u d (armRealTimeCapture True w0)"
    and "isInterceptorArmed (armRealTimeCapture True w0)"
  using assms by (auto simp: armRealTimeCapture_def rt_installed_def Let_def)

lemma teardown_restores:
  assumes "rt_installed u d w" "isInterceptorArmed w"
  shows "rt_useProgram (state_after (tearDownRealTime Full_Context w)) = Host u"
    and "rt_drawElements (state_after (tearDownRealTime Full_Context w)) = Host d"
  using assms
  by (simp_all add: tearDownRealTime_def context_there_def rt_installed_def Let_def
      split: option.splits)

section \<open>Resizes and traces\<close>

lemma rt_trace_append:
  "rt_trace k env (xs @ ys) w =
     (case rt_trace k env xs w of Inl e \<Rightarrow> Inl e | Inr w1 \<Rightarrow> rt_trace k env ys w1)"
  by (induction xs arbitrary: w) (auto split: sum.splits)

lemma resizes_same [simp]:
  "rt_useProgram ((onCanvasResize wd ht ^^ n) w) = rt_useProgram w"
  "rt_drawElements ((onCanvasResize wd ht ^^ n) w) = rt_drawElements w"
  "originalGLFunctions ((onCanvasResize wd ht ^^ n) w) = originalGLFunctions w"
  "rt_inTargetShaderPass ((onCanvasResize wd ht ^^ n) w) = rt_inTargetShaderPass w"
  "rt_lastCapturedTexture ((onCanvasResize wd ht ^^ n) w) = rt_lastCapturedTexture w"
  "host_invalid ((onCanvasResize wd ht ^^ n) w) = host_invalid w"
  "renderer_resolution ((onCanvasResize wd ht ^^ n) w) = renderer_resolution w"
  "created ((onCanvasResize wd ht ^^ n) w) = created w + n"
  by (induction n) simp_all

lemma resizes_buffer:
  "persistentTexture ((onCanvasResize wd ht ^^ Suc n) w) =
     Some \<lparr>sid = created w + n, width = wd, height = ht, resolution = renderer_resolution w\<rparr>"
  by simp

lemma resizes_destroyed_mono: "destroyed w \<subseteq> destroyed ((onCanvasResize wd ht ^^ n) w)"
  by (induction n) (auto split: option.splits)

lemma resizes_destroy_old:
  assumes "persistentTexture w = Some s0"
  shows "sid s0 \<in> destroyed ((onCanvasResize wd ht ^^ Suc n) w)"
proof -
  have "sid s0 \<in> destroyed (onCanvasResize wd ht w)" using assms by simp
  moreover have "(onCanvasResize wd ht ^^ Suc n) w = (onCanvasResize wd ht ^^ n) (onCanvasResize wd ht w)"
    by (simp add: funpow_swap1)
  ultimately show ?thesis using resizes_destroyed_mono by fastforce
qed

lemma rt_installed_resizes [simp]:
  "rt_installed u d ((onCanvasResize wd ht ^^ n) w) = rt_installed u d w"
  by (simp add: rt_installed_def)

lemma rt_run_frame: "rt_run k env cs w = Inr (rs, w') \<Longrightarrow> gl_frame w w'"
  unfolding rt_run_def using rt_gl_frame by (rule run_calls_frame)

section \<open>Facts about the example inputs\<close>

lemma lighting_rt_match: "realtime_match lighting_program"
  by (simp add: lighting_program_def match_defs)

lemma other_rt_no_match: "\<not> realtime_match other_program"
  by (simp add: other_program_def match_defs)

lemma count_env_quiet: "blit_quiet count_env"
  by (simp add: blit_quiet_def count_env_def quiet_call_def other_rt_no_match)

lemma rt_ready800_eq:
  "rt_ready800 =
     \<lparr>persistentTexture = Some buffer800, isApiReady = False, isInterceptorArmed = True,
      originalGLFunctions = Some (Host 0, Host 1), rt_useProgram = Tap, rt_drawElements = Tap,
      rt_inTargetShaderPass = False, rt_lastCapturedTexture = None,
      resize_listeners = 1, renderer_resolution = 1, created = 1, destroyed = {},
      host_invalid = {}, rt_forwarded = [], copies = [], rt_console = [Log_Resized, Log_Arming]\<rparr>"
  by (simp add: rt_ready800_def canvasReady_handler_def renderer_there_def context_there_def
      onCanvasResize_def armRealTimeCapture_def rt_loaded_def buffer800_def Let_def)

lemma rt_in_pass_reached:
  "rt_trace 3 count_env
     [CanvasReady 800 600 Full_Context, GL (UseProgram lighting_program),
      GL (DrawElements [4, 6] (Some (HostTex 7)))] rt_loaded = Inr rt_in_pass"
proof -
  have i: "rt_installed 0 1 rt_ready800"
    by (simp add: rt_ready800_eq rt_installed_def)
  have 1: "rt_gl 3 count_env (UseProgram lighting_program) rt_ready800 =
      Inr (0, rt_ready800\<lparr>rt_inTargetShaderPass := True,
                 rt_forwarded := [(0, UseProgram lighting_program)]\<rparr>)"
    using rt_gl_useProgram[OF i count_env_quiet, of 0 lighting_program]
    by (simp add: numeral_3_eq_3 after_bind_def blit_traffic_def rt_copy_of_def rt_ready800_eq
        lighting_rt_match count_env_def)
  have i2: "rt_installed 0 1 (rt_ready800\<lparr>rt_inTargetShaderPass := True,
                 rt_forwarded := [(0, UseProgram lighting_program)]\<rparr>)"
    using i by (simp add: rt_installed_def)
  have 2: "rt_gl 3 count_env (DrawElements [4, 6] (Some (HostTex 7)))
      (rt_ready800\<lparr>rt_inTargetShaderPass := True,
                 rt_forwarded := [(0, UseProgram lighting_program)]\<rparr>) = Inr (1, rt_in_pass)"
    using rt_gl_drawElements[OF i2, of 1 count_env "[4, 6]" "Some (HostTex 7)"]
    by (simp add: numeral_3_eq_3 rt_record_def rt_in_pass_def count_env_def)
  show ?thesis
    by (simp add: rt_step_def rt_ready800_def[symmetric] 1 2)
qed

lemma rt_in_pass_facts:
  "rt_installed 0 1 rt_in_pass" "rt_inTargetShaderPass rt_in_pass"
  "rt_copy_of rt_in_pass = Some (HostTex 7, buffer800)"
  "copies rt_in_pass = []" "rt_lastCapturedTexture rt_in_pass = Some (HostTex 7)"
  "rt_forwarded rt_in_pass = [(0, UseProgram lighting_program),
                        (1, DrawElements [4, 6] (Some (HostTex 7)))]"
  by (simp_all add: rt_in_pass_def rt_ready800_eq rt_installed_def rt_copy_of_def tex_valid_def)

lemma rt_before_arm_facts:
  "rt_useProgram rt_before_arm = Host 0" "rt_drawElements rt_before_arm = Host 1"
  "\<not> isInterceptorArmed rt_before_arm"
  "originalGLFunctions rt_before_arm = None \<or> originalGLFunctions rt_before_arm = Some (Host 0, Host 1)"
  "rt_forwarded rt_before_arm = []"
  by (simp_all add: rt_before_arm_def rt_loaded_def)

lemma arm_before: "armRealTimeCapture True rt_before_arm = rt_ready800"
  by (simp add: rt_before_arm_def rt_ready800_def canvasReady_handler_def renderer_there_def
      context_there_def Let_def rt_loaded_def)

lemma example_run:
  "\<exists>w1. rt_run 3 count_env example_calls rt_ready800 = Inr ([0, 1, 4, 5], w1) \<and>
     rt_forwarded w1 =
       [(0, UseProgram lighting_program), (1, DrawElements [4, 6] (Some (HostTex 7))),
        (0, UseProgram other_program), (1, DrawElements [4, 6] (Some (OwnTex 0))),
        (0, UseProgram other_program), (1, DrawElements [4, 6] (Some (HostTex 8)))] \<and>
     copies w1 = [(HostTex 7, buffer800)]"
proof -
  have b: "blit_calls count_env = [UseProgram other_program, DrawElements [4, 6] (Some (OwnTex 0))]"
    and h: "\<And>n c h. host_ret count_env n c h = length h"
    by (simp_all add: count_env_def)
  have i0: "rt_installed 0 1 rt_ready800" by (simp add: rt_ready800_eq rt_installed_def)
  note q = count_env_quiet
  define w1 where "w1 = after_bind count_env 0 1 lighting_program rt_ready800"
  have s1: "rt_gl 3 count_env (UseProgram lighting_program) rt_ready800 = Inr (0, w1)"
    using rt_gl_useProgram[OF i0 q, of 0 lighting_program]
    by (simp add: w1_def numeral_3_eq_3 h blit_traffic_def rt_copy_of_def rt_ready800_eq)
  have i1: "rt_installed 0 1 w1" using i0 by (simp add: w1_def)
  define w2 where "w2 = rt_record (Some (HostTex 7))
      (w1\<lparr>rt_forwarded := rt_forwarded w1 @ [(1, DrawElements [4, 6] (Some (HostTex 7)))]\<rparr>)"
  have f1: "rt_forwarded w1 = [(0, UseProgram lighting_program)]"
    by (simp add: w1_def blit_traffic_def rt_copy_of_def rt_ready800_eq)
  have s2: "rt_gl 3 count_env (DrawElements [4, 6] (Some (HostTex 7))) w1 = Inr (1, w2)"
    using rt_gl_drawElements[OF i1, of 1 count_env "[4, 6]" "Some (HostTex 7)"]
    by (simp add: w2_def numeral_3_eq_3 h f1)
  have w2_eq: "w2 = rt_in_pass"
    by (simp add: w2_def w1_def rt_in_pass_def after_bind_def rt_record_def lighting_rt_match
        blit_traffic_def rt_copy_of_def rt_ready800_eq)
  define w3 where "w3 = after_bind count_env 0 1 other_program rt_in_pass"
  have s3: "rt_gl 3 count_env (UseProgram other_program) w2 = Inr (4, w3)"
    using rt_gl_useProgram[OF rt_in_pass_facts(1) q, of 0 other_program]
    by (simp add: w2_eq w3_def numeral_3_eq_3 h blit_traffic_def rt_in_pass_facts b tagged_def)
  have i3: "rt_installed 0 1 w3" using rt_in_pass_facts(1) by (simp add: w3_def)
  have f3: "rt_forwarded w3 =
       [(0, UseProgram lighting_program), (1, DrawElements [4, 6] (Some (HostTex 7))),
        (0, UseProgram other_program), (1, DrawElements [4, 6] (Some (OwnTex 0))),
        (0, UseProgram other_program)]"
    and c3: "copies w3 = [(HostTex 7, buffer800)]" and p3: "\<not> rt_inTargetShaderPass w3"
    by (simp_all add: w3_def blit_traffic_def rt_in_pass_facts b tagged_def orig_of_def
        other_rt_no_match)
  define w4 where "w4 = rt_record (Some (HostTex 8))
      (w3\<lparr>rt_forwarded := rt_forwarded w3 @ [(1, DrawElements [4, 6] (Some (HostTex 8)))]\<rparr>)"
  have s4: "rt_gl 3 count_env (DrawElements [4, 6] (Some (HostTex 8))) w3 = Inr (5, w4)"
    using rt_gl_drawElements[OF i3, of 1 count_env "[4, 6]" "Some (HostTex 8)"]
    by (simp add: w4_def numeral_3_eq_3 h f3)
  have run: "rt_run 3 count_env example_calls rt_ready800 = Inr ([0, 1, 4, 5], w4)"
    by (simp add: rt_run_def example_calls_def s1 s2 s3 s4)
  have "rt_forwarded w4 = rt_forwarded w3 @ [(1, DrawElements [4, 6] (Some (HostTex 8)))]"
    "copies w4 = copies w3"
    using p3 by (simp_all add: w4_def rt_record_def)
  with run f3 c3 show ?thesis by simp
qed

lemma example_is_transparent:
  "transparent count_env 0 1 (tagged 0 1 (blit_calls count_env)) example_calls [0, 1, 4, 5] []
       [(0, UseProgram lighting_program), (1, DrawElements [4, 6] (Some (HostTex 7))),
        (0, UseProgram other_program), (1, DrawElements [4, 6] (Some (OwnTex 0))),
        (0, UseProgram other_program), (1, DrawElements [4, 6] (Some (HostTex 8)))]"
  by (simp add: example_calls_def tagged_def orig_of_def count_env_def)

lemma example_not_transparent:
  "\<not> transparent count_env 0 1 (tagged 0 1 (blit_calls count_env)) example_calls [0, 1, 2, 5] []
       [(0, UseProgram lighting_program), (1, DrawElements [4, 6] (Some (HostTex 7))),
        (0, UseProgram other_program), (1, DrawElements [4, 6] (Some (OwnTex 0))),
        (0, UseProgram other_program), (1, DrawElements [4, 6] (Some (HostTex 8)))]"
  by (simp add: example_calls_def tagged_def orig_of_def count_env_def)

lemma example_replay: "host_replay count_env 0 1 example_calls [] = [0, 1, 2, 3]"
  by (simp add: example_calls_def count_env_def)

lemma rt_after_copy_reached:
  "rt_trace 3 count_env
     [CanvasReady 800 600 Full_Context, GL (UseProgram lighting_program),
      GL (DrawElements [4, 6] (Some (HostTex 7))), GL (UseProgram other_program)] rt_loaded =
   Inr rt_after_copy"
proof -
  have "rt_trace 3 count_env
     ([CanvasReady 800 600 Full_Context, GL (UseProgram lighting_program),
      GL (DrawElements [4, 6] (Some (HostTex 7)))] @ [GL (UseProgram other_program)]) rt_loaded =
     rt_trace 3 count_env [GL (UseProgram other_program)] rt_in_pass"
    by (simp only: rt_trace_append rt_in_pass_reached sum.case)
  also have "\<dots> = Inr rt_after_copy"
    using rt_gl_useProgram[OF rt_in_pass_facts(1) count_env_quiet, of 0 other_program]
    by (simp add: rt_step_def numeral_3_eq_3 rt_after_copy_def)
  finally show ?thesis by simp
qed

lemma rt_after_copy_facts:
  "isApiReady rt_after_copy" "copies rt_after_copy = [(HostTex 7, buffer800)]"
  "persistentTexture rt_after_copy = Some buffer800" "resize_listeners rt_after_copy = 1"
  "created rt_after_copy = 1" "renderer_resolution rt_after_copy = 1"
  by (simp_all add: rt_after_copy_def rt_in_pass_facts after_bind_def)
     (simp_all add: rt_in_pass_def rt_ready800_eq)

lemma rt_after_resize_reached:
  "rt_trace 3 count_env
     [CanvasReady 800 600 Full_Context, GL (UseProgram lighting_program),
      GL (DrawElements [4, 6] (Some (HostTex 7))), GL (UseProgram other_program),
      Resize 1920 1080] rt_loaded =
   Inr rt_after_resize"
proof -
  have "rt_trace 3 count_env
     ([CanvasReady 800 600 Full_Context, GL (UseProgram lighting_program),
      GL (DrawElements [4, 6] (Some (HostTex 7))), GL (UseProgram other_program)] @
      [Resize 1920 1080]) rt_loaded =
     rt_trace 3 count_env [Resize 1920 1080] rt_after_copy"
    by (simp only: rt_trace_append rt_after_copy_reached sum.case)
  also have "\<dots> = Inr rt_after_resize"
    by (simp add: rt_step_def rt_after_resize_def rt_after_copy_facts)
  finally show ?thesis by simp
qed

lemma rt_in_pass_more:
  "rt_inv rt_in_pass" "resize_listeners rt_in_pass = 1"
  "persistentTexture (onCanvasResize 1920 1080 rt_in_pass) = Some buffer1920"
  "tex_valid (onCanvasResize 1920 1080 rt_in_pass) (HostTex 7)"
  "rt_copy_of (onCanvasResize 1920 1080 rt_in_pass) = Some (HostTex 7, buffer1920)"
  by (simp_all add: rt_in_pass_def rt_ready800_eq rt_inv_def buffer800_def buffer1920_def
      tex_valid_def rt_copy_of_def)

section \<open>Every call of the context returns\<close>

text \<open>
  With a copy that binds no matching program and room for three nested calls,
  every call of the context returns in every session from the loaded module on,
  whichever hooks ran before it and whether they returned or threw.
\<close>

lemma sound_resize: "entry_points_sound u d w \<Longrightarrow> entry_points_sound u d (onCanvasResize wd ht w)"
  by (simp add: entry_points_sound_def rt_installed_def)

lemma resizes_armed [simp]:
  "isInterceptorArmed ((onCanvasResize wd ht ^^ n) w) = isInterceptorArmed w"
  by (induction n) simp_all

lemma sound_resizes:
  "entry_points_sound u d w \<Longrightarrow> entry_points_sound u d ((onCanvasResize wd ht ^^ n) w)"
  by (simp add: entry_points_sound_def rt_installed_def)

lemma sound_arm: "entry_points_sound u d w \<Longrightarrow> entry_points_sound u d (armRealTimeCapture g w)"
  by (auto simp: entry_points_sound_def rt_installed_def armRealTimeCapture_def Let_def)

lemma sound_ready:
  assumes "entry_points_sound u d w"
  shows "entry_points_sound u d (state_after (canvasReady_handler wd ht app w))"
proof (cases "renderer_there app")
  case True
  have "entry_points_sound u d (onCanvasResize wd ht w)" using assms by (rule sound_resize)
  then have "entry_points_sound u d
      ((onCanvasResize wd ht w)\<lparr>resize_listeners := resize_listeners (onCanvasResize wd ht w) + 1\<rparr>)"
    by (simp add: entry_points_sound_def rt_installed_def)
  then have "entry_points_sound u d (armRealTimeCapture (context_there app)
      ((onCanvasResize wd ht w)\<lparr>resize_listeners := resize_listeners (onCanvasResize wd ht w) + 1\<rparr>))"
    by (rule sound_arm)
  with True show ?thesis by (simp add: canvasReady_handler_def Let_def)
next
  case False
  have "entry_points_sound u d (onCanvasResize_throws w)"
    using assms by (simp add: entry_points_sound_def rt_installed_def)
  with False show ?thesis by (simp add: canvasReady_handler_def)
qed

lemma sound_teardown:
  "entry_points_sound u d w \<Longrightarrow> entry_points_sound u d (state_after (tearDownRealTime app w))"
  by (cases app)
     (auto simp: entry_points_sound_def rt_installed_def tearDownRealTime_def context_there_def
        Let_def split: option.splits)

lemma sound_gl:
  assumes "entry_points_sound u d w" "blit_quiet env"
  shows "\<exists>r w'. rt_gl (Suc (Suc (Suc k))) env c w = Inr (r, w') \<and> entry_points_sound u d w'"
proof (cases "rt_installed u d w")
  case True
  from rt_gl_installed[OF True assms(2), of k c] show ?thesis
    by (auto simp: entry_points_sound_def)
next
  case False
  with assms(1) have h: "rt_useProgram w = Host u" "rt_drawElements w = Host d"
    "\<not> isInterceptorArmed w"
    "originalGLFunctions w = None \<or> originalGLFunctions w = Some (Host u, Host d)"
    by (auto simp: entry_points_sound_def)
  have "rt_gl (Suc (Suc (Suc k))) env c w =
     Inr (host_ret env (orig_of u d c) c (rt_forwarded w),
          w\<lparr>rt_forwarded := rt_forwarded w @ [(orig_of u d c, c)]\<rparr>)"
    using h(1,2) by (rule rt_gl_host)
  moreover have "entry_points_sound u d (w\<lparr>rt_forwarded := rt_forwarded w @ [(orig_of u d c, c)]\<rparr>)"
    using h by (simp add: entry_points_sound_def)
  ultimately show ?thesis by blast
qed

lemma sound_step:
  assumes "entry_points_sound u d w" "blit_quiet env"
  shows "\<exists>w'. rt_step (Suc (Suc (Suc k))) env e w = Inr w' \<and> entry_points_sound u d w'"
proof (cases e)
  case (GL c)
  from sound_gl[OF assms, of k c] obtain r w' where
    "rt_gl (Suc (Suc (Suc k))) env c w = Inr (r, w')" "entry_points_sound u d w'" by blast
  with GL show ?thesis by (simp add: rt_step_def)
next
  case (CanvasReady wd ht g)
  with assms(1) show ?thesis by (simp add: rt_step_def sound_ready)
next
  case (CanvasTearDown g)
  with assms(1) show ?thesis by (simp add: rt_step_def sound_teardown)
next
  case (Resize wd ht)
  with assms(1) show ?thesis by (simp add: rt_step_def sound_resizes)
next
  case (HostInvalidate n)
  with assms(1) show ?thesis by (simp add: rt_step_def entry_points_sound_def rt_installed_def)
next
  case (HostValidate n)
  with assms(1) show ?thesis by (simp add: rt_step_def entry_points_sound_def rt_installed_def)
qed

lemma session_calls_return:
  assumes "entry_points_sound u d w" "blit_quiet env"
  shows "\<exists>w'. rt_trace (Suc (Suc (Suc k))) env es w = Inr w' \<and> entry_points_sound u d w'"
  using assms(1)
proof (induction es arbitrary: w)
  case Nil
  then show ?case by simp
next
  case (Cons e es)
  from sound_step[OF Cons.prems assms(2), of k e] obtain w1 where
    s: "rt_step (Suc (Suc (Suc k))) env e w = Inr w1" and i: "entry_points_sound u d w1" by blast
  from Cons.IH[OF i] s show ?case by simp
qed

lemma loaded_sound: "entry_points_sound 0 1 rt_loaded"
  by (simp add: entry_points_sound_def rt_loaded_def)

text \<open>
  Why the copy is required not to bind a matching program: a copy that binds the
  target program and then another one leaves a pass of its own, which starts the
  next copy from inside the first, and so on; the bind that started it does not
  return at any depth.
\<close>

lemma loud_copy_overflows:
  assumes "rt_installed u d w" "rt_inTargetShaderPass w" "rt_lastCapturedTexture w = Some t"
    "tex_valid w t" "persistentTexture w = Some s"
  shows "rt_invoke k loud_env Tap (UseProgram ph) w = Inl RangeError"
  using assms
proof (induction k arbitrary: w ph)
  case 0
  then show ?case by simp
next
  case (Suc k)
  have og: "originalGLFunctions w = Some (Host u, Host d)"
    and slots: "rt_useProgram w = Tap"
    using Suc.prems(1) by (simp_all add: rt_installed_def)
  define w0 where "w0 = w\<lparr>rt_inTargetShaderPass := False\<rparr>"
  have b: "blit_calls loud_env = [UseProgram lighting_program, UseProgram other_program]"
    by (simp add: loud_env_def)
  have f0: "\<not> rt_inTargetShaderPass w0" "originalGLFunctions w0 = Some (Host u, Host d)"
    using og by (simp_all add: w0_def)
  have blit: "run_calls (\<lambda>c' w'. rt_invoke k loud_env (rt_slot c' w') c' w')
      (blit_calls loud_env) w0 = Inl RangeError"
  proof (cases k)
    case 0
    then show ?thesis by (simp add: b)
  next
    case (Suc k')
    have s0: "rt_slot (UseProgram lighting_program) w0 = Tap"
      using slots by (simp add: rt_slot_def w0_def)
    show ?thesis
    proof (cases k')
      case 0
      with Suc show ?thesis
        by (simp add: b s0 f0 rt_entry_def Let_def)
    next
      case (Suc k'')
      define w1 where "w1 = w0\<lparr>rt_inTargetShaderPass := True,
          rt_forwarded := rt_forwarded w0 @ [(u, UseProgram lighting_program)]\<rparr>"
      have first: "rt_invoke k loud_env Tap (UseProgram lighting_program) w0 = Inr ((), w1)"
        unfolding \<open>k = Suc k'\<close> Suc
        using rt_tap_useProgram_idle[OF f0(2,1), of k'' loud_env lighting_program]
        by (simp add: w1_def lighting_rt_match loud_env_def del: rt_invoke.simps)
      have w1: "rt_installed u d w1" "rt_inTargetShaderPass w1"
        "rt_lastCapturedTexture w1 = Some t" "tex_valid w1 t" "persistentTexture w1 = Some s"
        using Suc.prems by (simp_all add: w1_def w0_def rt_installed_def)
      have s1: "rt_slot (UseProgram other_program) w1 = Tap"
        using w1(1) by (simp add: rt_slot_def rt_installed_def)
      have second: "rt_invoke k loud_env Tap (UseProgram other_program) w1 = Inl RangeError"
        using w1 by (rule Suc.IH)
      show ?thesis
        by (simp add: b s0 first s1 second del: rt_invoke.simps)
    qed
  qed
  show ?case
    apply (subst rt_invoke.simps(2))
    apply (simp add: Suc.prems w0_def[symmetric] Let_def del: rt_invoke.simps)
    apply (simp add: w0_def Suc.prems blit[unfolded w0_def] del: rt_invoke.simps)
    done
qed

section \<open>Unresolvable programs, and the debug capture in a pass\<close>

lemma fails_no_match:
  assumes "resolution_fails ph"
  shows "\<not> realtime_match ph" "\<not> debug_match ph" "programName ph = ''UnknownProgram''"
  using assms
  by (auto simp: resolution_fails_def realtime_match_def debug_match_def programName_def TARGET_def
      split: sum.splits option.splits)

lemma dbg_gl_useProgram:
  assumes "dbg_useProgram v = Tap" "originalUseProgram v = Host u"
  shows "dbg_gl (Suc (Suc k)) env (UseProgram ph) v =
     Inr (host_ret env u (UseProgram ph) (dbg_forwarded v),
          (dbg_entry ph (dbg_exit v))\<lparr>dbg_forwarded := dbg_forwarded v @ [(u, UseProgram ph)]\<rparr>)"
  using assms by (simp add: dbg_gl_def dbg_tap_useProgram del: dbg_invoke.simps)

lemma bare_fails: "resolution_fails bare_program" "resolution_fails None"
  by (simp_all add: resolution_fails_def bare_program_def shader_source_def)

lemma dbg_armed_facts:
  "dbg_useProgram (armOneShotDebugCapture True dbg_page_load) = Tap"
  "originalUseProgram (armOneShotDebugCapture True dbg_page_load) = Host 0"
  "dbg_forwarded (armOneShotDebugCapture True dbg_page_load) = []"
  "dbg_exit (armOneShotDebugCapture True dbg_page_load) = armOneShotDebugCapture True dbg_page_load"
  by (simp_all add: armOneShotDebugCapture_def dbg_page_load_def dbg_exit_def)

lemma lighting_entry_in_pass:
  "dbg_inTargetShaderPass v \<Longrightarrow> dbg_entry ph v = v"
  by (simp add: dbg_entry_def)

lemma dbg_in_pass_facts:
  "dbg_useProgram dbg_in_pass = Tap" "dbg_drawElements dbg_in_pass = Tap"
  "originalUseProgram dbg_in_pass = Host 0" "originalDrawElements dbg_in_pass = Host 1"
  "dbg_inTargetShaderPass dbg_in_pass" "drawCountInPass dbg_in_pass = 1"
  "dbg_console dbg_in_pass = [Line_Armed, Line_Entering ''pixi-shader-15'']"
  by (simp_all add: dbg_in_pass_def armOneShotDebugCapture_def dbg_page_load_def)

lemma dbg_in_pass_reached:
  "dbg_run 2 unit_env
     [UseProgram lighting_program, DrawElements [4, 6] (Some (HostTex 7))]
     (armOneShotDebugCapture True dbg_page_load) = Inr ([(), ()], dbg_in_pass)"
  by (simp add: dbg_run_def dbg_in_pass_def armOneShotDebugCapture_def dbg_page_load_def
      dbg_gl_def numeral_2_eq_2 dbg_exit_def dbg_entry_def lighting_matches lighting_name
      dbg_record_def unit_env_def)

lemma dbg_rebind:
  "dbg_gl 2 unit_env (UseProgram lighting_program) dbg_in_pass = Inr ((), dbg_after_rebind)"
  using dbg_gl_useProgram[OF dbg_in_pass_facts(1,3), of 0 unit_env lighting_program]
  by (simp add: numeral_2_eq_2 dbg_after_rebind_def dbg_in_pass_def armOneShotDebugCapture_def
      dbg_page_load_def dbg_exit_def dbg_capture_def dbg_entry_def Let_def unit_env_def)

section \<open>The copy comes back into the tap\<close>

text \<open>
  C10. The tap is installed and a pass is being left; the copy's own calls bind no
  program that matches the target. Then the bind returns, at most one copy has
  been added (the one of the pass that ends), the calls of the copy went through
  the replaced entry points to the originals and neither started a second copy
  nor changed the last recorded target, and whether a pass is open afterwards
  depends on the program bound by the caller alone.
\<close>

theorem blit_reentry_single_copy:
  assumes inst: "rt_installed u d w" and pass: "rt_inTargetShaderPass w" and quiet: "blit_quiet env"
  shows "\<exists>r w'.
     rt_gl (Suc (Suc (Suc k))) env (UseProgram ph) w = Inr (r, w') \<and>
     copies w' = copies w @ (case rt_copy_of w of None \<Rightarrow> [] | Some c \<Rightarrow> [c]) \<and>
     length (copies w') \<le> length (copies w) + 1 \<and>
     rt_forwarded w' =
       rt_forwarded w @
       (case rt_copy_of w of None \<Rightarrow> [] | Some c \<Rightarrow> tagged u d (blit_calls env)) @
       [(u, UseProgram ph)] \<and>
     rt_lastCapturedTexture w' = rt_lastCapturedTexture w \<and>
     rt_inTargetShaderPass w' = realtime_match ph"
  using rt_gl_useProgram[OF inst quiet, of k ph]
  by (simp add: blit_traffic_def split: option.splits)

theorem blit_reentry_single_copy_witness:
  "rt_installed 0 1 rt_in_pass \<and> rt_inTargetShaderPass rt_in_pass \<and> blit_quiet count_env \<and>
   (\<exists>r w'.
     rt_gl 3 count_env (UseProgram other_program) rt_in_pass = Inr (r, w') \<and>
     copies w' = [(HostTex 7, buffer800)] \<and>
     rt_forwarded w' =
       [(0, UseProgram lighting_program), (1, DrawElements [4, 6] (Some (HostTex 7))),
        (0, UseProgram other_program), (1, DrawElements [4, 6] (Some (OwnTex 0))),
        (0, UseProgram other_program)] \<and>
     rt_lastCapturedTexture w' = Some (HostTex 7) \<and>
     \<not> rt_inTargetShaderPass w')"
proof -
  have b: "blit_calls count_env = [UseProgram other_program, DrawElements [4, 6] (Some (OwnTex 0))]"
    by (simp add: count_env_def)
  have "\<exists>r w'.
     rt_gl 3 count_env (UseProgram other_program) rt_in_pass = Inr (r, w') \<and>
     copies w' = [(HostTex 7, buffer800)] \<and>
     rt_forwarded w' =
       [(0, UseProgram lighting_program), (1, DrawElements [4, 6] (Some (HostTex 7))),
        (0, UseProgram other_program), (1, DrawElements [4, 6] (Some (OwnTex 0))),
        (0, UseProgram other_program)] \<and>
     rt_lastCapturedTexture w' = Some (HostTex 7) \<and>
     \<not> rt_inTargetShaderPass w'"
    using blit_reentry_single_copy [OF rt_in_pass_facts(1,2) count_env_quiet, of 0 other_program]
    by (simp add: rt_in_pass_facts(3-) other_rt_no_match numeral_3_eq_3 tagged_def
        orig_of_def b) blast
  then show ?thesis
    using rt_in_pass_facts(1,2) count_env_quiet by blast
qed

section \<open>The tap forwards every call unchanged, and restoring it restores the baseline\<close>

text \<open>
  C5. Before arming, the entry points are the host's implementations \<open>u\<close> and \<open>d\<close>
  (and what was saved earlier, if anything, is these two); the copy binds no
  program that matches the target. Then every sequence of calls through the
  installed tap returns; each call is forwarded once to the original of its kind
  with its own arguments and returns the original's value, the only other traffic
  being the calls of the copies themselves (\<open>transparent\<close>). The teardown, with
  the context there, returns; after it the entry points are those of before the
  installation, and a replay of calls
  reaches the originals exactly as it does on the state before the installation:
  the same calls, the same arguments, the values the originals return.
\<close>

theorem tap_is_transparent:
  assumes pre: "rt_useProgram w0 = Host u" "rt_drawElements w0 = Host d"
      "\<not> isInterceptorArmed w0"
    and saved: "originalGLFunctions w0 = None \<or> originalGLFunctions w0 = Some (Host u, Host d)"
    and quiet: "blit_quiet env"
  shows "\<exists>rs w1 ext.
     rt_run (Suc (Suc (Suc k))) env cs (armRealTimeCapture True w0) = Inr (rs, w1) \<and>
     rt_forwarded w1 = rt_forwarded w0 @ ext \<and>
     transparent env u d (tagged u d (blit_calls env)) cs rs (rt_forwarded w0) ext \<and>
     tearDownRealTime Full_Context w1 = Returned (state_after (tearDownRealTime Full_Context w1)) \<and>
     rt_useProgram (state_after (tearDownRealTime Full_Context w1)) = rt_useProgram w0 \<and>
     rt_drawElements (state_after (tearDownRealTime Full_Context w1)) = rt_drawElements w0 \<and>
     rt_run (Suc j) env cs' (state_after (tearDownRealTime Full_Context w1)) =
       Inr (host_replay env u d cs' (rt_forwarded w1),
            (state_after (tearDownRealTime Full_Context w1))\<lparr>rt_forwarded := rt_forwarded w1 @ tagged u d cs'\<rparr>) \<and>
     rt_run (Suc j) env cs' w0 =
       Inr (host_replay env u d cs' (rt_forwarded w0),
            w0\<lparr>rt_forwarded := rt_forwarded w0 @ tagged u d cs'\<rparr>)"
proof -
  have inst: "rt_installed u d (armRealTimeCapture True w0)"
    and armed: "isInterceptorArmed (armRealTimeCapture True w0)"
    using arm_installs[OF pre saved] by simp_all
  from rt_run_installed[OF inst quiet, of k cs] obtain rs w1 ext where
    run: "rt_run (Suc (Suc (Suc k))) env cs (armRealTimeCapture True w0) = Inr (rs, w1)"
    and fw: "rt_forwarded w1 = rt_forwarded w0 @ ext"
    and tr: "transparent env u d (tagged u d (blit_calls env)) cs rs (rt_forwarded w0) ext"
    and i1: "rt_installed u d w1" and a1: "isInterceptorArmed w1"
    using armed by auto
  have slots: "rt_useProgram (state_after (tearDownRealTime Full_Context w1)) = Host u"
    "rt_drawElements (state_after (tearDownRealTime Full_Context w1)) = Host d"
    using teardown_restores[OF i1 a1] by simp_all
  have after: "rt_run (Suc j) env cs' (state_after (tearDownRealTime Full_Context w1)) =
       Inr (host_replay env u d cs' (rt_forwarded w1),
            (state_after (tearDownRealTime Full_Context w1))\<lparr>rt_forwarded := rt_forwarded w1 @ tagged u d cs'\<rparr>)"
    using rt_run_host[OF slots, of j env cs'] by simp
  have before: "rt_run (Suc j) env cs' w0 =
       Inr (host_replay env u d cs' (rt_forwarded w0),
            w0\<lparr>rt_forwarded := rt_forwarded w0 @ tagged u d cs'\<rparr>)"
    using pre(1,2) by (rule rt_run_host)
  have ret: "tearDownRealTime Full_Context w1 =
       Returned (state_after (tearDownRealTime Full_Context w1))"
    using teardown_outcome[of Full_Context w1] by simp
  from run fw tr ret slots after before pre show ?thesis by simp
qed

theorem tap_is_transparent_witness:
  "rt_useProgram rt_before_arm = Host 0 \<and> rt_drawElements rt_before_arm = Host 1 \<and>
   \<not> isInterceptorArmed rt_before_arm \<and>
   (originalGLFunctions rt_before_arm = None \<or>
    originalGLFunctions rt_before_arm = Some (Host 0, Host 1)) \<and>
   blit_quiet count_env \<and>
   (\<exists>rs w1 ext.
     rt_run (Suc (Suc (Suc 0))) count_env example_calls (armRealTimeCapture True rt_before_arm) =
       Inr (rs, w1) \<and>
     rt_forwarded w1 = rt_forwarded rt_before_arm @ ext \<and>
     transparent count_env 0 1 (tagged 0 1 (blit_calls count_env)) example_calls rs
       (rt_forwarded rt_before_arm) ext \<and>
     tearDownRealTime Full_Context w1 = Returned (state_after (tearDownRealTime Full_Context w1)) \<and>
     rt_useProgram (state_after (tearDownRealTime Full_Context w1)) = rt_useProgram rt_before_arm \<and>
     rt_drawElements (state_after (tearDownRealTime Full_Context w1)) = rt_drawElements rt_before_arm \<and>
     rt_run (Suc 0) count_env example_calls (state_after (tearDownRealTime Full_Context w1)) =
       Inr (host_replay count_env 0 1 example_calls (rt_forwarded w1),
            (state_after (tearDownRealTime Full_Context w1))
              \<lparr>rt_forwarded := rt_forwarded w1 @ tagged 0 1 example_calls\<rparr>) \<and>
     rt_run (Suc 0) count_env example_calls rt_before_arm =
       Inr (host_replay count_env 0 1 example_calls (rt_forwarded rt_before_arm),
            rt_before_arm
              \<lparr>rt_forwarded := rt_forwarded rt_before_arm @ tagged 0 1 example_calls\<rparr>))"
proof -
  note h = rt_before_arm_facts(1-4) count_env_quiet
  have t: "\<exists>rs w1 ext.
     rt_run (Suc (Suc (Suc 0))) count_env example_calls (armRealTimeCapture True rt_before_arm) =
       Inr (rs, w1) \<and>
     rt_forwarded w1 = rt_forwarded rt_before_arm @ ext \<and>
     transparent count_env 0 1 (tagged 0 1 (blit_calls count_env)) example_calls rs
       (rt_forwarded rt_before_arm) ext \<and>
     tearDownRealTime Full_Context w1 = Returned (state_after (tearDownRealTime Full_Context w1)) \<and>
     rt_useProgram (state_after (tearDownRealTime Full_Context w1)) = rt_useProgram rt_before_arm \<and>
     rt_drawElements (state_after (tearDownRealTime Full_Context w1)) = rt_drawElements rt_before_arm \<and>
     rt_run (Suc 0) count_env example_calls (state_after (tearDownRealTime Full_Context w1)) =
       Inr (host_replay count_env 0 1 example_calls (rt_forwarded w1),
            (state_after (tearDownRealTime Full_Context w1))
              \<lparr>rt_forwarded := rt_forwarded w1 @ tagged 0 1 example_calls\<rparr>) \<and>
     rt_run (Suc 0) count_env example_calls rt_before_arm =
       Inr (host_replay count_env 0 1 example_calls (rt_forwarded rt_before_arm),
            rt_before_arm
              \<lparr>rt_forwarded := rt_forwarded rt_before_arm @ tagged 0 1 example_calls\<rparr>)"
    by (rule tap_is_transparent [OF h])
  show ?thesis by (intro conjI h t)
qed

section \<open>Readiness and the buffer the API returns\<close>

text \<open>
  C3. \<^verbatim>\<open>isReady()\<close> is documented to return true if the texture contains valid data,
  and the claim asks for it to be true exactly when \<^verbatim>\<open>getTexture()\<close> returns a
  populated buffer. The code at a session in which it is not so: \<^verbatim>\<open>canvasReady\<close> at
  800 by 600, the target program bound, a draw, another program bound (the first
  copy, into the 800 by 600 surface), and a resize to 1920 by 1080. Afterwards
  \<^verbatim>\<open>isReady()\<close> is true and \<^verbatim>\<open>getTexture()\<close> returns the surface the resize created;
  the only copy of the session went into the surface the resize destroyed, so the
  surface returned holds no data.
\<close>

theorem ready_with_unpopulated_buffer:
  "rt_trace 3 count_env
     [CanvasReady 800 600 Full_Context, GL (UseProgram lighting_program),
      GL (DrawElements [4, 6] (Some (HostTex 7))), GL (UseProgram other_program),
      Resize 1920 1080] rt_loaded = Inr rt_after_resize \<and>
   isReady rt_after_resize \<and>
   fst (getTexture rt_after_resize) = Some buffer1920 \<and>
   copies rt_after_resize = [(HostTex 7, buffer800)] \<and>
   sid buffer800 \<in> destroyed rt_after_resize \<and>
   \<not> populated rt_after_resize buffer1920"
  using rt_after_resize_reached
  by (simp add: isReady_def getTexture_def populated_def rt_after_resize_def rt_after_copy_facts
      buffer1920_def buffer800_def)

text \<open>
  The other way in which readiness and the buffer come apart: after a teardown
  that threw, \<^verbatim>\<open>isReady()\<close> is still true and \<^verbatim>\<open>getTexture()\<close> returns \<^verbatim>\<open>null\<close>.
\<close>

lemma ready_without_buffer:
  "isReady rt_torn_halfway \<and> fst (getTexture rt_torn_halfway) = None"
  by (simp add: isReady_def getTexture_def rt_torn_halfway_def rt_after_copy_facts)

text \<open>
  What the code does keep: a call of the context leaves the surface alone, makes
  the API ready exactly when it adds a copy, and every copy it adds goes into the
  surface that \<^verbatim>\<open>getTexture()\<close> returns afterwards. So the API never becomes ready
  without a copy in the current surface; only a resize or a failed teardown
  separates the two.
\<close>

lemma ready_by_copy_into_buffer:
  assumes "rt_gl k env c w = Inr (r, w')" "\<not> isReady w" "isReady w'"
  shows "\<exists>s. fst (getTexture w') = Some s \<and> populated w' s"
proof -
  have f: "gl_frame w w'" using assms(1) by (rule rt_gl_frame)
  then have sh: "persistentTexture w' = persistentTexture w"
    and cp: "copies w' = copies w @ new_copies w w'"
    and r: "isApiReady w' = (isApiReady w \<or> new_copies w w' \<noteq> [])"
    and l: "list_all (\<lambda>c. persistentTexture w = Some (snd c) \<and> tex_valid w (fst c))
              (new_copies w w')"
    by (simp_all add: gl_frame_def same_host_def)
  from r assms(2,3) obtain x xs where n: "new_copies w w' = x # xs"
    by (cases "new_copies w w'") (simp_all add: isReady_def)
  with l have p: "persistentTexture w = Some (snd x)" by simp
  have "fst (getTexture w') = Some (snd x)"
    using assms(3) sh p by (simp add: getTexture_def isReady_def)
  moreover have "populated w' (snd x)"
    using cp n by (simp add: populated_def)
  ultimately show ?thesis by blast
qed

section \<open>A resize while a pass is open\<close>

text \<open>
  C4, as stated, fails: with a resize between the entry into the pass and its end,
  the copy at the end of the pass is made, into the surface the resize created.
\<close>

theorem copy_after_resize_not_skipped:
  "rt_trace 3 count_env
     [CanvasReady 800 600 Full_Context, GL (UseProgram lighting_program),
      GL (DrawElements [4, 6] (Some (HostTex 7))), Resize 1920 1080,
      GL (UseProgram other_program)] rt_loaded = Inr rt_copied_after_resize \<and>
   copies rt_copied_after_resize = [(HostTex 7, buffer1920)]"
proof -
  have "rt_trace 3 count_env
     ([CanvasReady 800 600 Full_Context, GL (UseProgram lighting_program),
      GL (DrawElements [4, 6] (Some (HostTex 7)))] @
      [Resize 1920 1080, GL (UseProgram other_program)]) rt_loaded =
     rt_trace 3 count_env [Resize 1920 1080, GL (UseProgram other_program)] rt_in_pass"
    by (simp only: rt_trace_append rt_in_pass_reached sum.case)
  also have "\<dots> = Inr rt_copied_after_resize"
    using rt_gl_useProgram[of 0 1 "onCanvasResize 1920 1080 rt_in_pass" count_env 0 other_program]
      rt_in_pass_facts(1) count_env_quiet
    by (simp add: rt_step_def numeral_3_eq_3 rt_copied_after_resize_def rt_in_pass_more
        rt_installed_def)
  finally have "rt_trace 3 count_env
     [CanvasReady 800 600 Full_Context, GL (UseProgram lighting_program),
      GL (DrawElements [4, 6] (Some (HostTex 7))), Resize 1920 1080,
      GL (UseProgram other_program)] rt_loaded = Inr rt_copied_after_resize" by simp
  moreover have "copies rt_copied_after_resize = [(HostTex 7, buffer1920)]"
    by (simp add: rt_copied_after_resize_def rt_in_pass_more rt_in_pass_facts)
  ultimately show ?thesis by simp
qed

text \<open>
  C4, amended. The tap is installed, a pass is open, the resize listener is
  registered and the buffer manager's invariant holds; the renderer is resized to
  \<open>wd\<close> by \<open>ht\<close> and then a program is bound. The surface \<open>s\<close> in use after the
  resize has the new dimensions and is not destroyed, the surface in use before is
  destroyed; the bind returns; the copy at this end of pass is made exactly when
  the last observed target is (still) valid, and it goes into \<open>s\<close>; and in every
  further sequence of calls all copies go into \<open>s\<close> as well.
\<close>

theorem resize_in_flight:
  assumes inst: "rt_installed u d w" and quiet: "blit_quiet env" and inv: "rt_inv w"
    and pass: "rt_inTargetShaderPass w" and listening: "0 < resize_listeners w"
  shows "\<exists>s r w'.
     persistentTexture ((onCanvasResize wd ht ^^ resize_listeners w) w) = Some s \<and>
     width s = wd \<and> height s = ht \<and>
     sid s \<notin> destroyed ((onCanvasResize wd ht ^^ resize_listeners w) w) \<and>
     pred_option (\<lambda>s0. sid s0 \<in> destroyed ((onCanvasResize wd ht ^^ resize_listeners w) w))
       (persistentTexture w) \<and>
     rt_gl (Suc (Suc (Suc k))) env (UseProgram ph)
       ((onCanvasResize wd ht ^^ resize_listeners w) w) = Inr (r, w') \<and>
     copies w' = copies w @
       (case rt_lastCapturedTexture w of
          None \<Rightarrow> []
        | Some t \<Rightarrow>
            if tex_valid ((onCanvasResize wd ht ^^ resize_listeners w) w) t then [(t, s)] else []) \<and>
     persistentTexture w' = Some s \<and>
     (\<exists>rs w''. rt_run (Suc (Suc (Suc k))) env cs w' = Inr (rs, w'') \<and>
        list_all (\<lambda>c. snd c = s) (new_copies w' w''))"
proof -
  define v where "v = (onCanvasResize wd ht ^^ resize_listeners w) w"
  obtain n where n: "resize_listeners w = Suc n"
    using listening by (cases "resize_listeners w") auto
  define s where "s = \<lparr>sid = created w + n, width = wd, height = ht,
      resolution = renderer_resolution w\<rparr>"
  have pv: "persistentTexture v = Some s"
    unfolding v_def n s_def by (rule resizes_buffer)
  have iv: "rt_inv v" unfolding v_def using inv by (rule rt_inv_resizes)
  then have live: "sid s \<notin> destroyed v"
    using pv by (simp add: rt_inv_def)
  have old: "pred_option (\<lambda>s0. sid s0 \<in> destroyed v) (persistentTexture w)"
    unfolding v_def n using resizes_destroy_old by (cases "persistentTexture w") auto
  have instv: "rt_installed u d v" using inst by (simp add: v_def)
  have vf: "rt_inTargetShaderPass v" "rt_lastCapturedTexture v = rt_lastCapturedTexture w"
    "copies v = copies w"
    using pass by (simp_all add: v_def resizes_copies)
  have cv: "rt_copy_of v =
      (case rt_lastCapturedTexture w of
         None \<Rightarrow> None
       | Some t \<Rightarrow> if tex_valid v t then Some (t, s) else None)"
    using pv vf by (simp add: rt_copy_of_def split: option.splits)
  have g: "rt_gl (Suc (Suc (Suc k))) env (UseProgram ph) v =
     Inr (host_ret env u (UseProgram ph) (rt_forwarded v @ blit_traffic env u d v),
          after_bind env u d ph v)"
    using instv quiet by (rule rt_gl_useProgram)
  have c: "copies (after_bind env u d ph v) = copies w @
       (case rt_lastCapturedTexture w of
          None \<Rightarrow> []
        | Some t \<Rightarrow> if tex_valid v t then [(t, s)] else [])"
    by (simp add: cv vf split: option.splits)
  have p: "persistentTexture (after_bind env u d ph v) = Some s"
    using pv by simp
  have "rt_installed u d (after_bind env u d ph v)" using instv by simp
  from rt_run_installed[OF this quiet, of k cs] obtain rs w'' where
    run: "rt_run (Suc (Suc (Suc k))) env cs (after_bind env u d ph v) = Inr (rs, w'')"
    by blast
  then have "gl_frame (after_bind env u d ph v) w''" by (rule rt_run_frame)
  then have "list_all (\<lambda>c. persistentTexture (after_bind env u d ph v) = Some (snd c) \<and>
      tex_valid (after_bind env u d ph v) (fst c)) (new_copies (after_bind env u d ph v) w'')"
    by (simp add: gl_frame_def)
  then have "list_all (\<lambda>c. snd c = s) (new_copies (after_bind env u d ph v) w'')"
    unfolding p by (simp add: list_all_iff)
  with run have later: "\<exists>rs w''. rt_run (Suc (Suc (Suc k))) env cs (after_bind env u d ph v) = Inr (rs, w'') \<and>
        list_all (\<lambda>c. snd c = s) (new_copies (after_bind env u d ph v) w'')"
    by blast
  have wh: "width s = wd" "height s = ht" by (simp_all add: s_def)
  show ?thesis
    unfolding v_def[symmetric]
    apply (rule exI[of _ s])
    apply (rule exI[of _ "host_ret env u (UseProgram ph) (rt_forwarded v @ blit_traffic env u d v)"])
    apply (rule exI[of _ "after_bind env u d ph v"])
    apply (intro conjI pv wh live old g c p later)
    done
qed

theorem resize_in_flight_witness:
  "rt_installed 0 1 rt_in_pass \<and> blit_quiet count_env \<and> rt_inv rt_in_pass \<and>
   rt_inTargetShaderPass rt_in_pass \<and> 0 < resize_listeners rt_in_pass \<and>
   (\<exists>r w'.
     rt_gl 3 count_env (UseProgram other_program)
       ((onCanvasResize 1920 1080 ^^ resize_listeners rt_in_pass) rt_in_pass) = Inr (r, w') \<and>
     copies w' = [(HostTex 7, buffer1920)] \<and>
     persistentTexture w' = Some buffer1920 \<and>
     sid buffer800 \<in> destroyed ((onCanvasResize 1920 1080 ^^ resize_listeners rt_in_pass) rt_in_pass) \<and>
     (\<exists>rs w''. rt_run 3 count_env example_calls w' = Inr (rs, w'') \<and>
        list_all (\<lambda>c. snd c = buffer1920) (new_copies w' w'')))"
proof -
  note h = rt_in_pass_facts(1) count_env_quiet rt_in_pass_more(1) rt_in_pass_facts(2)
  have l: "0 < resize_listeners rt_in_pass" by (simp add: rt_in_pass_more)
  have pt: "persistentTexture rt_in_pass = Some buffer800"
    by (simp add: rt_in_pass_def rt_ready800_eq)
  from resize_in_flight [OF h l, of 1920 1080 0 other_program example_calls]
  obtain s r w' where
    s: "persistentTexture ((onCanvasResize 1920 1080 ^^ resize_listeners rt_in_pass) rt_in_pass) = Some s"
    and old: "pred_option (\<lambda>s0. sid s0 \<in> destroyed ((onCanvasResize 1920 1080 ^^ resize_listeners rt_in_pass) rt_in_pass))
       (persistentTexture rt_in_pass)"
    and g: "rt_gl (Suc (Suc (Suc 0))) count_env (UseProgram other_program)
       ((onCanvasResize 1920 1080 ^^ resize_listeners rt_in_pass) rt_in_pass) = Inr (r, w')"
    and c: "copies w' = copies rt_in_pass @
       (case rt_lastCapturedTexture rt_in_pass of
          None \<Rightarrow> []
        | Some t \<Rightarrow>
            if tex_valid ((onCanvasResize 1920 1080 ^^ resize_listeners rt_in_pass) rt_in_pass) t
            then [(t, s)] else [])"
    and p: "persistentTexture w' = Some s"
    and later: "\<exists>rs w''. rt_run (Suc (Suc (Suc 0))) count_env example_calls w' = Inr (rs, w'') \<and>
        list_all (\<lambda>c. snd c = s) (new_copies w' w'')"
    by blast
  have "created rt_in_pass = 1" "renderer_resolution rt_in_pass = 1"
    by (simp_all add: rt_in_pass_def rt_ready800_eq)
  then have s_eq: "s = buffer1920"
    using s by (simp add: rt_in_pass_more buffer1920_def)
  have c': "copies w' = [(HostTex 7, buffer1920)]"
    using c by (simp add: s_eq rt_in_pass_facts rt_in_pass_more)
  have old': "sid buffer800 \<in> destroyed ((onCanvasResize 1920 1080 ^^ resize_listeners rt_in_pass) rt_in_pass)"
    using old by (simp add: pt)
  from g c' p later old' have "\<exists>r w'.
     rt_gl 3 count_env (UseProgram other_program)
       ((onCanvasResize 1920 1080 ^^ resize_listeners rt_in_pass) rt_in_pass) = Inr (r, w') \<and>
     copies w' = [(HostTex 7, buffer1920)] \<and>
     persistentTexture w' = Some buffer1920 \<and>
     sid buffer800 \<in> destroyed ((onCanvasResize 1920 1080 ^^ resize_listeners rt_in_pass) rt_in_pass) \<and>
     (\<exists>rs w''. rt_run 3 count_env example_calls w' = Inr (rs, w'') \<and>
        list_all (\<lambda>c. snd c = buffer1920) (new_copies w' w''))"
    unfolding s_eq numeral_3_eq_3 by blast
  with h l show ?thesis by blast
qed

section \<open>Tearing down twice\<close>

text \<open>
  Where \<^verbatim>\<open>canvas.app\<close> has a renderer at both calls, or is \<^verbatim>\<open>undefined\<close>, both calls
  of \<^verbatim>\<open>tearDownRealTime\<close> return: after the first the surface reference is \<^verbatim>\<open>null\<close>
  and both flags are reset, and the second adds a console line and (with a
  renderer) removes a listener that the first call, without an application, had
  left; it changes nothing else.
\<close>

lemma teardown_twice_returns:
  assumes "app1 \<noteq> No_Renderer" "app2 \<noteq> No_Renderer"
  shows "\<exists>w1. tearDownRealTime app1 w = Returned w1 \<and>
     persistentTexture w1 = None \<and> \<not> isApiReady w1 \<and> \<not> isInterceptorArmed w1 \<and>
     tearDownRealTime app2 w1 =
       Returned (w1\<lparr>rt_console := rt_console w1 @ [Log_TearingDown],
                    resize_listeners := (if renderer_there app2 then 0 else resize_listeners w1)\<rparr>)"
proof -
  define w1 where "w1 = state_after (tearDownRealTime app1 w)"
  have r: "tearDownRealTime app1 w = Returned w1"
    using teardown_outcome[of app1 w] assms(1) by (simp add: w1_def)
  have f: "persistentTexture w1 = None" "\<not> isApiReady w1" "\<not> isInterceptorArmed w1"
    using assms(1) by (simp_all add: w1_def)
  have "tearDownRealTime app2 w1 =
       Returned (w1\<lparr>rt_console := rt_console w1 @ [Log_TearingDown],
                    resize_listeners := (if renderer_there app2 then 0 else resize_listeners w1)\<rparr>)"
    using assms(2) f
    by (cases app2)
       (simp_all add: tearDownRealTime_def renderer_there_def Let_def split: option.splits)
  with r f show ?thesis by blast
qed

text \<open>
  C9. The claim is that a teardown never raises an error and leaves the buffer
  reference \<^verbatim>\<open>null\<close> and the flags reset, a second call changing nothing. The code
  at a teardown that runs after the first copy while \<^verbatim>\<open>canvas.app\<close> exists and its
  renderer is \<^verbatim>\<open>undefined\<close>: the surface is destroyed and its reference cleared,
  then \<^verbatim>\<open>canvas.app?.renderer.off(...)\<close> throws a \<^verbatim>\<open>TypeError\<close>, and the two flags
  are not reset: the API still says it is ready, the interceptor still counts as
  armed, the tap stays installed and the listener stays registered. A second
  call in that state throws again.
\<close>

theorem teardown_throws_without_renderer:
  "rt_trace 3 count_env
     [CanvasReady 800 600 Full_Context, GL (UseProgram lighting_program),
      GL (DrawElements [4, 6] (Some (HostTex 7))), GL (UseProgram other_program)] rt_loaded =
     Inr rt_after_copy \<and>
   tearDownRealTime No_Renderer rt_after_copy = Threw TypeError rt_torn_halfway \<and>
   persistentTexture rt_torn_halfway = None \<and>
   sid buffer800 \<in> destroyed rt_torn_halfway \<and>
   isApiReady rt_torn_halfway \<and>
   isInterceptorArmed rt_torn_halfway \<and>
   rt_useProgram rt_torn_halfway = Tap \<and>
   rt_drawElements rt_torn_halfway = Tap \<and>
   resize_listeners rt_torn_halfway = 1 \<and>
   tearDownRealTime No_Renderer rt_torn_halfway =
     Threw TypeError
       (rt_torn_halfway\<lparr>rt_console := rt_console rt_torn_halfway @ [Log_TearingDown]\<rparr>)"
proof -
  have a: "isInterceptorArmed rt_after_copy" "rt_useProgram rt_after_copy = Tap"
    "rt_drawElements rt_after_copy = Tap" "destroyed rt_after_copy = {}"
    "originalGLFunctions rt_after_copy = Some (Host 0, Host 1)"
    by (simp_all add: rt_after_copy_def rt_in_pass_def rt_ready800_eq)
  have t1: "tearDownRealTime No_Renderer rt_after_copy = Threw TypeError rt_torn_halfway"
    by (simp add: tearDownRealTime_def context_there_def Let_def a rt_after_copy_facts
        rt_torn_halfway_def buffer800_def)
  have f: "persistentTexture rt_torn_halfway = None" "sid buffer800 \<in> destroyed rt_torn_halfway"
    "isApiReady rt_torn_halfway" "isInterceptorArmed rt_torn_halfway"
    "rt_useProgram rt_torn_halfway = Tap" "rt_drawElements rt_torn_halfway = Tap"
    "resize_listeners rt_torn_halfway = 1"
    "originalGLFunctions rt_torn_halfway = Some (Host 0, Host 1)"
    by (simp_all add: rt_torn_halfway_def a rt_after_copy_facts buffer800_def)
  have t2: "tearDownRealTime No_Renderer rt_torn_halfway =
     Threw TypeError
       (rt_torn_halfway\<lparr>rt_console := rt_console rt_torn_halfway @ [Log_TearingDown]\<rparr>)"
    by (simp add: tearDownRealTime_def context_there_def Let_def f)
  show ?thesis
    by (intro conjI rt_after_copy_reached t1 t2 f(1-7))
qed

section \<open>A program whose identifier cannot be resolved\<close>

text \<open>
  C7. The identifier of the program handle cannot be resolved. Then the handle
  matches in neither tap. Through the installed real-time tap the bind returns
  (no exception), the tap stays installed, no pass is open afterwards, and the
  original implementation received the call with the same handle, last in the
  log. Through the installed debug tap the bind returns the original's value, the
  original received the same handle, and the state is the one any non-matching
  program leaves (the exit branch, then no entry).
\<close>

theorem resolution_failure_is_no_match:
  assumes fails: "resolution_fails ph"
    and rt: "rt_installed u d w" "blit_quiet env"
    and dbg: "dbg_useProgram v = Tap" "originalUseProgram v = Host u'"
  shows "\<not> realtime_match ph \<and> \<not> debug_match ph \<and>
     rt_gl (Suc (Suc (Suc k))) env (UseProgram ph) w =
       Inr (host_ret env u (UseProgram ph) (rt_forwarded w @ blit_traffic env u d w),
            after_bind env u d ph w) \<and>
     rt_installed u d (after_bind env u d ph w) \<and>
     \<not> rt_inTargetShaderPass (after_bind env u d ph w) \<and>
     rt_forwarded (after_bind env u d ph w) =
       rt_forwarded w @ blit_traffic env u d w @ [(u, UseProgram ph)] \<and>
     dbg_gl (Suc (Suc j)) env' (UseProgram ph) v =
       Inr (host_ret env' u' (UseProgram ph) (dbg_forwarded v),
            (dbg_exit v)\<lparr>dbg_forwarded := dbg_forwarded v @ [(u', UseProgram ph)]\<rparr>)"
proof -
  note n = fails_no_match[OF fails]
  have 1: "rt_gl (Suc (Suc (Suc k))) env (UseProgram ph) w =
       Inr (host_ret env u (UseProgram ph) (rt_forwarded w @ blit_traffic env u d w),
            after_bind env u d ph w)"
    using rt by (rule rt_gl_useProgram)
  have 2: "rt_installed u d (after_bind env u d ph w)" using rt(1) by simp
  have 3: "\<not> rt_inTargetShaderPass (after_bind env u d ph w)" using n(1) by simp
  have 4: "rt_forwarded (after_bind env u d ph w) =
       rt_forwarded w @ blit_traffic env u d w @ [(u, UseProgram ph)]" by simp
  have 5: "dbg_gl (Suc (Suc j)) env' (UseProgram ph) v =
       Inr (host_ret env' u' (UseProgram ph) (dbg_forwarded v),
            (dbg_exit v)\<lparr>dbg_forwarded := dbg_forwarded v @ [(u', UseProgram ph)]\<rparr>)"
    using dbg_gl_useProgram[OF dbg, of j env' ph] by (simp add: dbg_entry_no_match n(2))
  from n(1,2) 1 2 3 4 5 show ?thesis by (intro conjI)
qed

theorem resolution_failure_is_no_match_witness:
  "resolution_fails bare_program \<and> rt_installed 0 1 rt_ready800 \<and> blit_quiet count_env \<and>
   dbg_useProgram (armOneShotDebugCapture True dbg_page_load) = Tap \<and>
   originalUseProgram (armOneShotDebugCapture True dbg_page_load) = Host 0 \<and>
   \<not> realtime_match bare_program \<and> \<not> debug_match bare_program \<and>
   rt_gl 3 count_env (UseProgram bare_program) rt_ready800 =
     Inr (0, rt_ready800\<lparr>rt_forwarded := [(0, UseProgram bare_program)]\<rparr>) \<and>
   dbg_gl 2 unit_env (UseProgram bare_program) (armOneShotDebugCapture True dbg_page_load) =
     Inr ((), (armOneShotDebugCapture True dbg_page_load)
                 \<lparr>dbg_forwarded := [(0, UseProgram bare_program)]\<rparr>)"
proof -
  have i: "rt_installed 0 1 rt_ready800" by (simp add: rt_ready800_eq rt_installed_def)
  have ab: "after_bind count_env 0 1 bare_program rt_ready800 =
      rt_ready800\<lparr>rt_forwarded := [(0, UseProgram bare_program)]\<rparr>"
    using fails_no_match(1)[OF bare_fails(1)]
    by (simp add: after_bind_def blit_traffic_def rt_copy_of_def rt_ready800_eq)
  have bt: "blit_traffic count_env 0 1 rt_ready800 = []" "rt_forwarded rt_ready800 = []"
    by (simp_all add: blit_traffic_def rt_copy_of_def rt_ready800_eq)
  have hr: "host_ret count_env 0 (UseProgram bare_program) [] = 0"
    by (simp add: count_env_def)
  from resolution_failure_is_no_match [OF bare_fails(1) i count_env_quiet dbg_armed_facts(1,2),
      of 0 0 unit_env]
  show ?thesis
    unfolding ab bt dbg_armed_facts(3,4) append_Nil hr numeral_3_eq_3 numeral_2_eq_2
    using bare_fails(1) i count_env_quiet dbg_armed_facts(1,2) by simp
qed

section \<open>Leaving a pass and entering one in the same call\<close>

text \<open>
  C2, as stated, fails for the one-shot debug capture: when the target program is
  bound again right after a pass with one draw, the detector does not go back to
  idle, no new pass is started and the draw count stays 1; the entry points are
  the originals again.
\<close>

theorem debug_rebind_starts_no_pass:
  "dbg_run 2 unit_env
     [UseProgram lighting_program, DrawElements [4, 6] (Some (HostTex 7)),
      UseProgram lighting_program]
     (armOneShotDebugCapture True dbg_page_load) = Inr ([(), (), ()], dbg_after_rebind) \<and>
   dbg_inTargetShaderPass dbg_after_rebind \<and>
   drawCountInPass dbg_after_rebind = 1 \<and>
   dbg_console dbg_after_rebind =
     [Line_Armed, Line_Entering ''pixi-shader-15'', Line_Exiting 1, Line_Complete] \<and>
   dbg_useProgram dbg_after_rebind = Host 0 \<and> dbg_drawElements dbg_after_rebind = Host 1"
proof -
  have "dbg_run 2 unit_env
     ([UseProgram lighting_program, DrawElements [4, 6] (Some (HostTex 7))] @
      [UseProgram lighting_program])
     (armOneShotDebugCapture True dbg_page_load) = Inr ([(), ()] @ [()], dbg_after_rebind)"
    unfolding dbg_run_def
    apply (subst run_calls_append)
    apply (simp only: dbg_in_pass_reached[unfolded dbg_run_def] sum.case prod.case)
    apply (simp only: run_calls.simps dbg_rebind sum.case prod.case)
    done
  then show ?thesis
    by (simp add: dbg_after_rebind_def dbg_in_pass_def armOneShotDebugCapture_def dbg_page_load_def)
qed

text \<open>
  C2, amended. In the real-time tap, a bind while a pass is open first ends the
  pass (the flag is cleared and at most one copy is made, which does not depend
  on the program being bound), and then the program bound decides alone whether a
  pass is open: binding the target program again ends one pass and starts the
  next in the same call. The real-time tap keeps no draw count. In the debug tap,
  a bind while the pass is open emits the exit with the draw count of that pass,
  restores the original entry points and clears the guard before the program is
  looked at; the flag stays set and the count is left as it is, so no second pass
  is started and no counts are merged. A draw count is reset to 0 when the armed,
  idle debug detector enters its pass.
\<close>

theorem pass_exit_before_entry:
  assumes rt: "rt_installed u d w" "blit_quiet env" "rt_inTargetShaderPass w"
    and dbg: "dbg_useProgram v = Tap" "originalUseProgram v = Host u'" "dbg_inTargetShaderPass v"
    and first: "dbg_idle v0" "debug_match p"
  shows "(\<exists>r w'.
       rt_gl (Suc (Suc (Suc k))) env (UseProgram ph) w = Inr (r, w') \<and>
       copies w' = copies w @ (case rt_copy_of w of None \<Rightarrow> [] | Some c \<Rightarrow> [c]) \<and>
       isApiReady w' = (isApiReady w \<or> rt_copy_of w \<noteq> None) \<and>
       rt_inTargetShaderPass w' = realtime_match ph) \<and>
     (\<exists>r v'.
       dbg_gl (Suc (Suc j)) env' (UseProgram ph) v = Inr (r, v') \<and>
       dbg_console v' = dbg_console v @ [Line_Exiting (drawCountInPass v), Line_Complete] \<and>
       dbg_useProgram v' = originalUseProgram v \<and>
       dbg_drawElements v' = originalDrawElements v \<and>
       \<not> debugCaptureArmed v' \<and>
       dbg_inTargetShaderPass v' \<and>
       drawCountInPass v' = drawCountInPass v) \<and>
     (\<exists>r v1.
       dbg_gl (Suc (Suc j)) env' (UseProgram p) v0 = Inr (r, v1) \<and>
       dbg_inTargetShaderPass v1 \<and> drawCountInPass v1 = 0 \<and>
       dbg_console v1 = dbg_console v0 @ [Line_Entering (programName p)])"
proof -
  have a: "\<exists>r w'.
       rt_gl (Suc (Suc (Suc k))) env (UseProgram ph) w = Inr (r, w') \<and>
       copies w' = copies w @ (case rt_copy_of w of None \<Rightarrow> [] | Some c \<Rightarrow> [c]) \<and>
       isApiReady w' = (isApiReady w \<or> rt_copy_of w \<noteq> None) \<and>
       rt_inTargetShaderPass w' = realtime_match ph"
    using rt_gl_useProgram[OF rt(1,2), of k ph] by simp
  define v' where "v' = (dbg_entry ph (dbg_exit v))\<lparr>dbg_forwarded := dbg_forwarded v @ [(u', UseProgram ph)]\<rparr>"
  have e: "dbg_entry ph (dbg_exit v) = dbg_exit v"
    using dbg(3) by (simp add: lighting_entry_in_pass)
  have "dbg_gl (Suc (Suc j)) env' (UseProgram ph) v =
      Inr (host_ret env' u' (UseProgram ph) (dbg_forwarded v), v')"
    unfolding v'_def using dbg(1,2) by (rule dbg_gl_useProgram)
  moreover have "dbg_console v' = dbg_console v @ [Line_Exiting (drawCountInPass v), Line_Complete]"
    "dbg_useProgram v' = originalUseProgram v" "dbg_drawElements v' = originalDrawElements v"
    "\<not> debugCaptureArmed v'" "dbg_inTargetShaderPass v'" "drawCountInPass v' = drawCountInPass v"
    using dbg_exit_in_pass[OF dbg(3)] dbg(3) by (simp_all add: v'_def e)
  ultimately have b: "\<exists>r v'.
       dbg_gl (Suc (Suc j)) env' (UseProgram ph) v = Inr (r, v') \<and>
       dbg_console v' = dbg_console v @ [Line_Exiting (drawCountInPass v), Line_Complete] \<and>
       dbg_useProgram v' = originalUseProgram v \<and>
       dbg_drawElements v' = originalDrawElements v \<and>
       \<not> debugCaptureArmed v' \<and>
       dbg_inTargetShaderPass v' \<and>
       drawCountInPass v' = drawCountInPass v"
    by blast
  obtain u0 where u0: "originalUseProgram v0 = Host u0"
    using first(1) by (cases "originalUseProgram v0") (auto simp: dbg_idle_def)
  have t0: "dbg_useProgram v0 = Tap" and n0: "\<not> dbg_inTargetShaderPass v0"
    using first(1) by (simp_all add: dbg_idle_def)
  define v1 where "v1 = (dbg_entry p (dbg_exit v0))\<lparr>dbg_forwarded := dbg_forwarded v0 @ [(u0, UseProgram p)]\<rparr>"
  have "dbg_gl (Suc (Suc j)) env' (UseProgram p) v0 =
      Inr (host_ret env' u0 (UseProgram p) (dbg_forwarded v0), v1)"
    unfolding v1_def using t0 u0 by (rule dbg_gl_useProgram)
  moreover have "dbg_inTargetShaderPass v1" "drawCountInPass v1 = 0"
    "dbg_console v1 = dbg_console v0 @ [Line_Entering (programName p)]"
    using n0 first(2) by (simp_all add: v1_def dbg_exit_def dbg_entry_def)
  ultimately have c: "\<exists>r v1.
       dbg_gl (Suc (Suc j)) env' (UseProgram p) v0 = Inr (r, v1) \<and>
       dbg_inTargetShaderPass v1 \<and> drawCountInPass v1 = 0 \<and>
       dbg_console v1 = dbg_console v0 @ [Line_Entering (programName p)]"
    by blast
  from a b c show ?thesis by (intro conjI)
qed

theorem pass_exit_before_entry_witness:
  "rt_installed 0 1 rt_in_pass \<and> blit_quiet count_env \<and> rt_inTargetShaderPass rt_in_pass \<and>
   dbg_useProgram dbg_in_pass = Tap \<and> originalUseProgram dbg_in_pass = Host 0 \<and>
   dbg_inTargetShaderPass dbg_in_pass \<and>
   dbg_idle (armOneShotDebugCapture True dbg_page_load) \<and> debug_match lighting_program \<and>
   (\<exists>r w'.
       rt_gl 3 count_env (UseProgram lighting_program) rt_in_pass = Inr (r, w') \<and>
       copies w' = [(HostTex 7, buffer800)] \<and> isApiReady w' \<and> rt_inTargetShaderPass w') \<and>
   (\<exists>r v'.
       dbg_gl 2 unit_env (UseProgram lighting_program) dbg_in_pass = Inr (r, v') \<and>
       dbg_console v' =
         [Line_Armed, Line_Entering ''pixi-shader-15'', Line_Exiting 1, Line_Complete] \<and>
       dbg_useProgram v' = Host 0 \<and> \<not> debugCaptureArmed v' \<and>
       dbg_inTargetShaderPass v' \<and> drawCountInPass v' = 1) \<and>
   (\<exists>r v1.
       dbg_gl 2 unit_env (UseProgram lighting_program)
         (armOneShotDebugCapture True dbg_page_load) = Inr (r, v1) \<and>
       dbg_inTargetShaderPass v1 \<and> drawCountInPass v1 = 0)"
proof -
  have idle: "dbg_idle (armOneShotDebugCapture True dbg_page_load)"
    by (simp add: dbg_idle_def armOneShotDebugCapture_def dbg_page_load_def)
  note h = rt_in_pass_facts(1) count_env_quiet rt_in_pass_facts(2) dbg_in_pass_facts(1,3,5)
    idle lighting_matches
  from pass_exit_before_entry [OF h, of 0 lighting_program 0 unit_env]
  have "(\<exists>r w'.
       rt_gl 3 count_env (UseProgram lighting_program) rt_in_pass = Inr (r, w') \<and>
       copies w' = [(HostTex 7, buffer800)] \<and> isApiReady w' \<and> rt_inTargetShaderPass w')"
    and "(\<exists>r v'.
       dbg_gl 2 unit_env (UseProgram lighting_program) dbg_in_pass = Inr (r, v') \<and>
       dbg_console v' =
         [Line_Armed, Line_Entering ''pixi-shader-15'', Line_Exiting 1, Line_Complete] \<and>
       dbg_useProgram v' = Host 0 \<and> \<not> debugCaptureArmed v' \<and>
       dbg_inTargetShaderPass v' \<and> drawCountInPass v' = 1)"
    and "(\<exists>r v1.
       dbg_gl 2 unit_env (UseProgram lighting_program)
         (armOneShotDebugCapture True dbg_page_load) = Inr (r, v1) \<and>
       dbg_inTargetShaderPass v1 \<and> drawCountInPass v1 = 0)"
    unfolding numeral_3_eq_3 numeral_2_eq_2
    by (simp_all add: rt_in_pass_facts dbg_in_pass_facts lighting_rt_match) blast+
  with h show ?thesis by (intro conjI)
qed

section \<open>The ready hook\<close>

lemma v3_canvasReady_done [simp]:
  "\<not> canvasReady_pending (v3_canvasReady h w)"
  by (simp add: v3_canvasReady_def api_initialize_def Let_def split: option.splits)

lemma v3_step_after_ready:
  assumes "\<not> canvasReady_pending w"
  shows "\<not> canvasReady_pending (v3_step e w)" "hook_calls (v3_step e w) = hook_calls w"
  using assms
  by (cases e; simp add: v3_step_def v3_canvasReady_def v3_filter_apply_def v3_tick_def
      updateFromSource_def Let_def split: option.splits)+

lemma v3_trace_after_ready:
  assumes "\<not> canvasReady_pending w"
  shows "hook_calls (v3_trace es w) = hook_calls w"
  using assms
proof (induction es arbitrary: w)
  case Nil
  then show ?case by simp
next
  case (Cons e es)
  from Cons.IH[OF v3_step_after_ready(1)[OF Cons.prems]] v3_step_after_ready(2)[OF Cons.prems]
  show ?case by simp
qed

lemma v3_canvasReady_realtime:
  assumes "canvasReady_pending w" "has_renderer h" "\<not> debugMode h"
  shows "hook_calls (v3_canvasReady h w) = hook_calls w @ [IlluminationBufferReady]"
    and "v3_copies (v3_canvasReady h w) = v3_copies w"
  using assms
  by (simp_all add: v3_canvasReady_def api_initialize_def Let_def split: option.splits)

lemma v3_example_trace:
  "v3_copies (v3_trace [V3_FilterApply (Some (HostTex 7)), V3_Tick, V3_CanvasReady realtime_host]
      (v3_canvasReady realtime_host v3_loaded)) =
     [(HostTex 7, \<lparr>sid = 0, width = 800, height = 600, resolution = 1\<rparr>)]"
  by (simp add: v3_step_def v3_canvasReady_def api_initialize_def Let_def v3_loaded_def
      realtime_host_def v3_filter_apply_def updateFromSource_def v3_tick_def)

text \<open>
  C6, as stated, fails: in real-time mode the \<^verbatim>\<open>canvasReady\<close> handler has fired the hook
  when it returns, and no copy has been made by then.
\<close>

theorem ready_hook_before_any_copy:
  "hook_calls (v3_canvasReady realtime_host v3_loaded) = [IlluminationBufferReady] \<and>
   v3_copies (v3_canvasReady realtime_host v3_loaded) = []"
  by (simp add: v3_canvasReady_def api_initialize_def Let_def v3_loaded_def realtime_host_def)

text \<open>
  C6, amended. When the \<^verbatim>\<open>canvasReady\<close> handler runs with a renderer and debug mode
  off, it fires \<^verbatim>\<open>illuminationBufferReady\<close> with the API object once, at its end,
  without any copy having been made; whatever the host does afterwards (filter
  applications, ticks, further \<^verbatim>\<open>canvasReady\<close> hooks), the hook is not fired again.
  In the real-time tap, the bind that makes the first successful copy sets the
  ready flag and writes the first-capture line to the console; it fires no hook.
\<close>

theorem ready_hook_fires_at_initialisation:
  assumes pending: "canvasReady_pending w" and renderer: "has_renderer h"
    and realtime: "\<not> debugMode h"
    and rt: "rt_installed u d w'" "blit_quiet env"
  shows "hook_calls (v3_canvasReady h w) = hook_calls w @ [IlluminationBufferReady] \<and>
     v3_copies (v3_canvasReady h w) = v3_copies w \<and>
     hook_calls (v3_trace es (v3_canvasReady h w)) = hook_calls w @ [IlluminationBufferReady] \<and>
     (\<exists>r w''.
        rt_gl (Suc (Suc (Suc k))) env (UseProgram ph) w' = Inr (r, w'') \<and>
        isApiReady w'' = (isApiReady w' \<or> rt_copy_of w' \<noteq> None) \<and>
        rt_console w'' = rt_console w' @
          (if rt_copy_of w' \<noteq> None \<and> \<not> isApiReady w' then [Log_FirstCapture] else []))"
proof -
  note a = v3_canvasReady_realtime[OF pending renderer realtime]
  have b: "hook_calls (v3_trace es (v3_canvasReady h w)) = hook_calls w @ [IlluminationBufferReady]"
    using v3_trace_after_ready[of "v3_canvasReady h w" es] a(1) by simp
  have c: "\<exists>r w''.
        rt_gl (Suc (Suc (Suc k))) env (UseProgram ph) w' = Inr (r, w'') \<and>
        isApiReady w'' = (isApiReady w' \<or> rt_copy_of w' \<noteq> None) \<and>
        rt_console w'' = rt_console w' @
          (if rt_copy_of w' \<noteq> None \<and> \<not> isApiReady w' then [Log_FirstCapture] else [])"
    using rt_gl_useProgram[OF rt, of k ph] by (simp add: after_bind_def)
  from a b c show ?thesis by (intro conjI)
qed

theorem ready_hook_fires_at_initialisation_witness:
  "canvasReady_pending v3_loaded \<and> has_renderer realtime_host \<and> \<not> debugMode realtime_host \<and>
   rt_installed 0 1 rt_in_pass \<and> blit_quiet count_env \<and>
   hook_calls (v3_canvasReady realtime_host v3_loaded) = [IlluminationBufferReady] \<and>
   v3_copies (v3_canvasReady realtime_host v3_loaded) = [] \<and>
   hook_calls (v3_trace [V3_FilterApply (Some (HostTex 7)), V3_Tick, V3_CanvasReady realtime_host]
      (v3_canvasReady realtime_host v3_loaded)) = [IlluminationBufferReady] \<and>
   (\<exists>r w''.
      rt_gl 3 count_env (UseProgram other_program) rt_in_pass = Inr (r, w'') \<and>
      isApiReady w'' \<and> rt_console w'' = [Log_Resized, Log_Arming, Log_FirstCapture])"
proof -
  have h: "canvasReady_pending v3_loaded" "has_renderer realtime_host" "\<not> debugMode realtime_host"
    and z: "hook_calls v3_loaded = []" "v3_copies v3_loaded = []"
    by (simp_all add: v3_loaded_def realtime_host_def)
  have c: "rt_console rt_in_pass = [Log_Resized, Log_Arming]" "\<not> isApiReady rt_in_pass"
    by (simp_all add: rt_in_pass_def rt_ready800_eq)
  from ready_hook_fires_at_initialisation [OF h rt_in_pass_facts(1) count_env_quiet,
      of "[V3_FilterApply (Some (HostTex 7)), V3_Tick, V3_CanvasReady realtime_host]" 0
         other_program]
  have "hook_calls (v3_canvasReady realtime_host v3_loaded) = [IlluminationBufferReady]"
    "v3_copies (v3_canvasReady realtime_host v3_loaded) = []"
    "hook_calls (v3_trace [V3_FilterApply (Some (HostTex 7)), V3_Tick, V3_CanvasReady realtime_host]
      (v3_canvasReady realtime_host v3_loaded)) = [IlluminationBufferReady]"
    "\<exists>r w''.
      rt_gl 3 count_env (UseProgram other_program) rt_in_pass = Inr (r, w'') \<and>
      isApiReady w'' \<and> rt_console w'' = [Log_Resized, Log_Arming, Log_FirstCapture]"
    unfolding z append_Nil numeral_3_eq_3
    by (simp_all add: rt_in_pass_facts c)
  with h rt_in_pass_facts(1) count_env_quiet show ?thesis by (intro conjI)
qed

end
